theory Spec2Isabelle
  imports
    Complex_Main
    "HOL-Library.Char_ord"
    "HOL-Library.List_Lexorder"
    "HOL-Library.Multiset"
    "HOL-Library.Sublist"
begin

section \<open>Python values\<close>

text \<open>
  Text is held as the list of its UTF-8 bytes (\<^typ>\<open>string\<close>); the lexicographic order
  on byte lists is the order Python gives \<open>str\<close> (by code point). A dict with text keys and
  text values is a partial map. Every exception the code can raise is a value of
  \<open>error\<close>, and a function that can raise returns \<open>error + 'a\<close> with \<open>Inl\<close> the
  exception.
\<close>

datatype error =
    KeyError string
  | IndexError
  | ValueError string
  | RuntimeError string
  | UnboundLocalError string

type_synonym dict = "string \<rightharpoonup> string"

text \<open>\<open>d[k]\<close>: raises \<open>KeyError\<close> on a missing key.\<close>

definition getitem :: "dict \<Rightarrow> string \<Rightarrow> error + string" where
  "getitem d k = (case d k of None \<Rightarrow> Inl (KeyError k) | Some v \<Rightarrow> Inr v)"

text \<open>\<open>d.get(k, default)\<close>.\<close>

definition dict_get :: "('k \<rightharpoonup> 'v) \<Rightarrow> 'k \<Rightarrow> 'v \<Rightarrow> 'v" where
  "dict_get d k dflt = (case d k of None \<Rightarrow> dflt | Some v \<Rightarrow> v)"

text \<open>\<open>xs[i]\<close> for a constant index \<open>i \<ge> 0\<close>: raises \<open>IndexError\<close> out of range.\<close>

definition list_getitem :: "'a list \<Rightarrow> nat \<Rightarrow> error + 'a" where
  "list_getitem xs i = (if i < length xs then Inr (xs ! i) else Inl IndexError)"

text \<open>
  Sequencing: the second computation runs only when the first did not raise.
\<close>

definition and_then :: "error + 'a \<Rightarrow> ('a \<Rightarrow> error + 'b) \<Rightarrow> error + 'b" where
  "and_then r f = (case r of Inl e \<Rightarrow> Inl e | Inr v \<Rightarrow> f v)"

text \<open>
  A list comprehension \<open>[f(x) for x in xs]\<close> whose body can raise: the elements are
  evaluated in order and the first exception aborts the whole comprehension.
\<close>

fun comprehension :: "('a \<Rightarrow> error + 'b) \<Rightarrow> 'a list \<Rightarrow> error + 'b list" where
  "comprehension f [] = Inr []"
| "comprehension f (x # xs) =
     and_then (f x) (\<lambda>y. and_then (comprehension f xs) (\<lambda>ys. Inr (y # ys)))"

text \<open>\<open>sep.join(xs)\<close>.\<close>

fun join :: "string \<Rightarrow> string list \<Rightarrow> string" where
  "join sep [] = []"
| "join sep [x] = x"
| "join sep (x # y # ys) = x @ sep @ join sep (y # ys)"

text \<open>
  \<open>s.lower()\<close>. The letters \<open>A\<close> to \<open>Z\<close> are lowered; every other byte is kept.
  The result is only ever used as a key into a table whose keys are lower-case ASCII
  words without the letter \<open>k\<close>, and no code point outside ASCII other than the Kelvin
  sign lowers to an ASCII letter, so the lookups agree with Python's on every text.
\<close>

definition lower_char :: "char \<Rightarrow> char" where
  "lower_char c =
     (let n = (of_char c :: nat) in if 65 \<le> n \<and> n \<le> 90 then char_of (n + 32) else c)"

definition lower :: "string \<Rightarrow> string" where
  "lower s = map lower_char s"

text \<open>
  \<open>s.strip()\<close> removes the white space of \<open>str.isspace\<close> at both ends: the code points
  U+0009 to U+000D, U+001C to U+0020, U+0085, U+00A0, U+1680, U+2000 to U+200A, U+2028,
  U+2029, U+202F, U+205F and U+3000, here by their UTF-8 encodings of one, two or three
  bytes.
\<close>

definition space1 :: "char \<Rightarrow> bool" where
  "space1 a = (let n = (of_char a :: nat) in (9 \<le> n \<and> n \<le> 13) \<or> (28 \<le> n \<and> n \<le> 32))"

definition space2 :: "char \<Rightarrow> char \<Rightarrow> bool" where
  "space2 a b =
     (let m = (of_char a :: nat); n = (of_char b :: nat)
      in m = 0xC2 \<and> (n = 0x85 \<or> n = 0xA0))"

definition space3 :: "char \<Rightarrow> char \<Rightarrow> char \<Rightarrow> bool" where
  "space3 a b c =
     (let l = (of_char a :: nat); m = (of_char b :: nat); n = (of_char c :: nat)
      in (l = 0xE1 \<and> m = 0x9A \<and> n = 0x80)
       \<or> (l = 0xE2 \<and> m = 0x80 \<and> ((0x80 \<le> n \<and> n \<le> 0x8A) \<or> n = 0xA8 \<or> n = 0xA9 \<or> n = 0xAF))
       \<or> (l = 0xE2 \<and> m = 0x81 \<and> n = 0x9F)
       \<or> (l = 0xE3 \<and> m = 0x80 \<and> n = 0x80))"

fun lstrip :: "string \<Rightarrow> string" where
  "lstrip (a # b # c # s) =
     (if space1 a then lstrip (b # c # s)
      else if space2 a b then lstrip (c # s)
      else if space3 a b c then lstrip s
      else a # b # c # s)"
| "lstrip [a, b] =
     (if space1 a then lstrip [b] else if space2 a b then [] else [a, b])"
| "lstrip [a] = (if space1 a then [] else [a])"
| "lstrip [] = []"

text \<open>The same from the right end, on the reversed text (\<open>a\<close> is the last byte).\<close>

fun rstrip_rev :: "string \<Rightarrow> string" where
  "rstrip_rev (a # b # c # s) =
     (if space1 a then rstrip_rev (b # c # s)
      else if space2 b a then rstrip_rev (c # s)
      else if space3 c b a then rstrip_rev s
      else a # b # c # s)"
| "rstrip_rev [a, b] =
     (if space1 a then rstrip_rev [b] else if space2 b a then [] else [a, b])"
| "rstrip_rev [a] = (if space1 a then [] else [a])"
| "rstrip_rev [] = []"

definition rstrip :: "string \<Rightarrow> string" where
  "rstrip s = rev (rstrip_rev (rev s))"

definition strip :: "string \<Rightarrow> string" where
  "strip s = rstrip (lstrip s)"

section \<open>The text-generation providers\<close>

text \<open>
  Both providers are external: a call takes the prompt and either returns the text of
  the reply or raises. What the body of a \<open>try\<close> raises is kept with its message
  (\<open>str(e)\<close>); the class matters only for \<open>json.JSONDecodeError\<close>, which
  \<open>generate_project_list\<close> handles apart. Only exceptions derived from \<open>Exception\<close>
  are modelled (the handlers catch no others).
\<close>

datatype raised = JSONDecodeError string | OtherException string

fun message :: "raised \<Rightarrow> string" where
  "message (JSONDecodeError m) = m"
| "message (OtherException m) = m"

datatype reply = Raises raised | Returns string

type_synonym provider = "string \<Rightarrow> reply"

text \<open>
  A facade returns its result (or the exception that leaves it) together with the
  prompts it has sent to the provider, in order.
\<close>

type_synonym 'a outcome = "(error + 'a) \<times> string list"

section \<open>legal\_docs.py\<close>

record legal_templates =
  power_of_attorney :: string
  letter_of_association :: string

definition legal_english_power_of_attorney :: string where
  \<open>legal_english_power_of_attorney =
   ''\<newline>'' @
   ''You are a legal document assistant.\<newline>'' @
   ''\<newline>'' @
   ''Generate a formal, clear, and professional Power of Attorney document.\<newline>'' @
   ''\<newline>'' @
   ''- Include the parties'' @ [CHR 0x27] @ '' full names and roles.\<newline>'' @
   ''- Specify the authority granted clearly.\<newline>'' @
   ''- Use formal legal language.\<newline>'' @
   ''- Include date and place placeholders.\<newline>'' @
   ''- The tone should be respectful, precise, and legally binding.\<newline>''\<close>

definition legal_english_letter_of_association :: string where
  \<open>legal_english_letter_of_association =
   ''\<newline>'' @
   ''You are a legal document assistant.\<newline>'' @
   ''\<newline>'' @
   ''Generate a formal Letter of Association for a consortium of firms joining for a project.\<newline>'' @
   ''\<newline>'' @
   ''- List all participating firms with roles.\<newline>'' @
   ''- Specify the purpose of association.\<newline>'' @
   ''- Include obligations and collaboration terms briefly.\<newline>'' @
   ''- Use formal legal language.\<newline>'' @
   ''- Include date and place placeholders.\<newline>''\<close>

definition legal_portuguese_power_of_attorney :: string where
  \<open>legal_portuguese_power_of_attorney =
   ''\<newline>'' @
   ''Voc'' @ [CHR 0xC3, CHR 0xAA] @ '' '' @ [CHR 0xC3, CHR 0xA9] @ '' um assistente de documentos legais.\<newline>'' @
   ''\<newline>'' @
   ''Gere uma procura'' @ [CHR 0xC3, CHR 0xA7, CHR 0xC3, CHR 0xA3] @ ''o formal, clara e profissional.\<newline>'' @
   ''\<newline>'' @
   ''- Inclua os nomes completos das partes e seus pap'' @ [CHR 0xC3, CHR 0xA9] @ ''is.\<newline>'' @
   ''- Especifique claramente os poderes concedidos.\<newline>'' @
   ''- Use linguagem jur'' @ [CHR 0xC3, CHR 0xAD] @ ''dica formal.\<newline>'' @
   ''- Inclua espa'' @ [CHR 0xC3, CHR 0xA7] @ ''os para data e local.\<newline>'' @
   ''- O tom deve ser respeitoso, preciso e juridicamente vinculativo.\<newline>''\<close>

definition legal_portuguese_letter_of_association :: string where
  \<open>legal_portuguese_letter_of_association =
   ''\<newline>'' @
   ''Voc'' @ [CHR 0xC3, CHR 0xAA] @ '' '' @ [CHR 0xC3, CHR 0xA9] @ '' um assistente de documentos legais.\<newline>'' @
   ''\<newline>'' @
   ''Gere uma Carta de Associa'' @ [CHR 0xC3, CHR 0xA7, CHR 0xC3, CHR 0xA3] @ ''o formal para um cons'' @ [CHR 0xC3, CHR 0xB3] @ ''rcio de empresas que se unem para um projeto.\<newline>'' @
   ''\<newline>'' @
   ''- Liste todas as empresas participantes com seus pap'' @ [CHR 0xC3, CHR 0xA9] @ ''is.\<newline>'' @
   ''- Especifique o prop'' @ [CHR 0xC3, CHR 0xB3] @ ''sito da associa'' @ [CHR 0xC3, CHR 0xA7, CHR 0xC3, CHR 0xA3] @ ''o.\<newline>'' @
   ''- Inclua brevemente obriga'' @ [CHR 0xC3, CHR 0xA7, CHR 0xC3, CHR 0xB5] @ ''es e termos de colabora'' @ [CHR 0xC3, CHR 0xA7, CHR 0xC3, CHR 0xA3] @ ''o.\<newline>'' @
   ''- Use linguagem jur'' @ [CHR 0xC3, CHR 0xAD] @ ''dica formal.\<newline>'' @
   ''- Inclua espa'' @ [CHR 0xC3, CHR 0xA7] @ ''os para data e local.\<newline>''\<close>

definition legal_spanish_power_of_attorney :: string where
  \<open>legal_spanish_power_of_attorney =
   ''\<newline>'' @
   ''Eres un asistente de documentos legales.\<newline>'' @
   ''\<newline>'' @
   ''Genera un poder notarial formal, claro y profesional.\<newline>'' @
   ''\<newline>'' @
   ''- Incluye los nombres completos de las partes y sus roles.\<newline>'' @
   ''- Especifica claramente la autoridad otorgada.\<newline>'' @
   ''- Usa lenguaje legal formal.\<newline>'' @
   ''- Incluye espacios para fecha y lugar.\<newline>'' @
   ''- El tono debe ser respetuoso, preciso y legalmente vinculante.\<newline>''\<close>

definition legal_spanish_letter_of_association :: string where
  \<open>legal_spanish_letter_of_association =
   ''\<newline>'' @
   ''Eres un asistente de documentos legales.\<newline>'' @
   ''\<newline>'' @
   ''Genera una Carta de Asociaci'' @ [CHR 0xC3, CHR 0xB3] @ ''n formal para un consorcio de empresas que se unen para un proyecto.\<newline>'' @
   ''\<newline>'' @
   ''- Enumera todas las empresas participantes con roles.\<newline>'' @
   ''- Especifica el prop'' @ [CHR 0xC3, CHR 0xB3] @ ''sito de la asociaci'' @ [CHR 0xC3, CHR 0xB3] @ ''n.\<newline>'' @
   ''- Incluye brevemente las obligaciones y t'' @ [CHR 0xC3, CHR 0xA9] @ ''rminos de colaboraci'' @ [CHR 0xC3, CHR 0xB3] @ ''n.\<newline>'' @
   ''- Usa lenguaje legal formal.\<newline>'' @
   ''- Incluye espacios para fecha y lugar.\<newline>''\<close>

definition legal_english :: legal_templates where
  "legal_english =
     \<lparr>power_of_attorney = legal_english_power_of_attorney,
      letter_of_association = legal_english_letter_of_association\<rparr>"

definition legal_portuguese :: legal_templates where
  "legal_portuguese =
     \<lparr>power_of_attorney = legal_portuguese_power_of_attorney,
      letter_of_association = legal_portuguese_letter_of_association\<rparr>"

definition legal_spanish :: legal_templates where
  "legal_spanish =
     \<lparr>power_of_attorney = legal_spanish_power_of_attorney,
      letter_of_association = legal_spanish_letter_of_association\<rparr>"

text \<open>The dict \<open>templates\<close> of \<open>get_language_legal_templates\<close>, as the list of its items.\<close>

definition legal_docs_templates :: "(string \<times> legal_templates) list" where
  "legal_docs_templates =
     [(''english'', legal_english),
      (''portuguese'', legal_portuguese),
      (''spanish'', legal_spanish)]"

text \<open>\<open>templates.get(language, templates["english"])\<close> on the lowered language.\<close>

definition get_language_legal_templates :: "string \<Rightarrow> legal_templates" where
  "get_language_legal_templates language =
     (let language = lower language
      in dict_get (map_of legal_docs_templates) language legal_english)"

text \<open>\<open>parties[i][k]\<close>: the index first, then the key.\<close>

definition party_item :: "dict list \<Rightarrow> nat \<Rightarrow> string \<Rightarrow> error + string" where
  "party_item parties i k = and_then (list_getitem parties i) (\<lambda>p. getitem p k)"

text \<open>
  \<open>build_prompt\<close> of \<open>legal_docs.py\<close>. The fields of an f-string are evaluated from
  left to right, so the first failing lookup decides the exception.
\<close>

definition legal_docs_build_prompt ::
  "string \<Rightarrow> dict list \<Rightarrow> string \<Rightarrow> string \<Rightarrow> error + string" where
  "legal_docs_build_prompt doc_type parties project_name language =
     (let language_templates = get_language_legal_templates language in
      if doc_type = ''power_of_attorney'' then
        and_then (party_item parties 0 ''name'') (\<lambda>name0.
        and_then (party_item parties 0 ''role'') (\<lambda>role0.
        and_then (party_item parties 1 ''name'') (\<lambda>name1.
        and_then (party_item parties 1 ''role'') (\<lambda>role1.
          Inr (strip (
            ''\<newline>'' @
            power_of_attorney language_templates @
            ''\<newline>'' @
            ''\<newline>'' @
            ''Project Name: '' @ project_name @ ''\<newline>'' @
            ''\<newline>'' @
            ''Principal: '' @ name0 @ '' ('' @ role0 @ '')\<newline>'' @
            ''Attorney-in-fact: '' @ name1 @ '' ('' @ role1 @ '')\<newline>'' @
            ''\<newline>'' @
            ''Generate the full legal Power of Attorney document below:\<newline>''))))))
      else if doc_type = ''letter_of_association'' then
        and_then
          (comprehension
            (\<lambda>p. and_then (getitem p ''name'') (\<lambda>n.
                 and_then (getitem p ''role'') (\<lambda>r.
                   Inr (''- '' @ n @ '' ('' @ r @ '')''))))
            parties)
          (\<lambda>firms.
            let firms_list = join ''\<newline>'' firms in
            Inr (strip (
              ''\<newline>'' @
              letter_of_association language_templates @
              ''\<newline>'' @
              ''\<newline>'' @
              ''Project Name: '' @ project_name @ ''\<newline>'' @
              ''\<newline>'' @
              ''Participating Firms:\<newline>'' @
              firms_list @ ''\<newline>'' @
              ''\<newline>'' @
              ''Generate the full legal Letter of Association document below:\<newline>'')))
      else Inl (ValueError ''Unsupported document type''))"

text \<open>
  \<open>generate_legal_document\<close>: the prompt is built before the \<open>try\<close>, so an exception
  of \<open>build_prompt\<close> leaves the function; whatever the call of the model raises is
  caught and returned as text.
\<close>

definition generate_legal_document ::
  "provider \<Rightarrow> string \<Rightarrow> dict list \<Rightarrow> string \<Rightarrow> string \<Rightarrow> string outcome" where
  "generate_legal_document gemini doc_type parties project_name language =
     (case legal_docs_build_prompt doc_type parties project_name language of
        Inl e \<Rightarrow> (Inl e, [])
      | Inr prompt \<Rightarrow>
          (case gemini prompt of
             Raises e \<Rightarrow> (Inr (''Error generating legal document: '' @ message e), [prompt])
           | Returns text \<Rightarrow> (Inr (strip text), [prompt])))"

section \<open>company\_profiles.py\<close>

definition SUPPORTED_LANGUAGES :: "string list" where
  "SUPPORTED_LANGUAGES = [''english'', ''portuguese'', ''spanish'']"

record profile_templates =
  example :: string
  instructions :: string

definition profile_english_example :: string where
  \<open>profile_english_example =
   ''\<newline>'' @
   ''Example Company Profile:\<newline>'' @
   ''\<newline>'' @
   ''**Alpha Consulting**\<newline>'' @
   ''Alpha Consulting is a leading engineering firm with over 20 years of experience in infrastructure development.\<newline>'' @
   ''Key Strengths:\<newline>'' @
   ''- Expertise in smart city solutions\<newline>'' @
   ''- ISO 9001 and ISO 14001 certified\<newline>'' @
   ''- Proven track record with 50+ projects completed in 10 countries\<newline>'' @
   ''\<newline>'' @
   ''Contact: contact@alphaconsulting.com | +1-555-1234\<newline>''\<close>

definition profile_english_instructions :: string where
  \<open>profile_english_instructions =
   ''\<newline>'' @
   ''You are an expert technical writer. Generate a concise, engaging company profile section for a proposal.\<newline>'' @
   ''\<newline>'' @
   ''- Use the English language.\<newline>'' @
   ''- Include company name, core competencies, certifications, and notable achievements.\<newline>'' @
   ''- Highlight relevance to the current project.\<newline>'' @
   ''- Keep it under 200 words.\<newline>'' @
   ''- Format with headings and bullet points for clarity.\<newline>''\<close>

definition profile_portuguese_example :: string where
  \<open>profile_portuguese_example =
   ''\<newline>'' @
   ''Exemplo de Perfil da Empresa:\<newline>'' @
   ''\<newline>'' @
   ''**Alpha Consulting**\<newline>'' @
   ''A Alpha Consulting '' @ [CHR 0xC3, CHR 0xA9] @ '' uma empresa l'' @ [CHR 0xC3, CHR 0xAD] @ ''der em engenharia com mais de 20 anos de experi'' @ [CHR 0xC3, CHR 0xAA] @ ''ncia em desenvolvimento de infraestrutura.\<newline>'' @
   ''Principais Pontos Fortes:\<newline>'' @
   ''- Especializa'' @ [CHR 0xC3, CHR 0xA7, CHR 0xC3, CHR 0xA3] @ ''o em solu'' @ [CHR 0xC3, CHR 0xA7, CHR 0xC3, CHR 0xB5] @ ''es de cidades inteligentes\<newline>'' @
   ''- Certifica'' @ [CHR 0xC3, CHR 0xA7, CHR 0xC3, CHR 0xB5] @ ''es ISO 9001 e ISO 14001\<newline>'' @
   ''- Hist'' @ [CHR 0xC3, CHR 0xB3] @ ''rico comprovado com mais de 50 projetos conclu'' @ [CHR 0xC3, CHR 0xAD] @ ''dos em 10 pa'' @ [CHR 0xC3, CHR 0xAD] @ ''ses\<newline>'' @
   ''\<newline>'' @
   ''Contato: contato@alphaconsulting.com | +55-11-5555-1234\<newline>''\<close>

definition profile_portuguese_instructions :: string where
  \<open>profile_portuguese_instructions =
   ''\<newline>'' @
   ''Voc'' @ [CHR 0xC3, CHR 0xAA] @ '' '' @ [CHR 0xC3, CHR 0xA9] @ '' um redator t'' @ [CHR 0xC3, CHR 0xA9] @ ''cnico especializado. Gere uma se'' @ [CHR 0xC3, CHR 0xA7, CHR 0xC3, CHR 0xA3] @ ''o de perfil da empresa concisa e envolvente para uma proposta.\<newline>'' @
   ''\<newline>'' @
   ''- Use a l'' @ [CHR 0xC3, CHR 0xAD] @ ''ngua portuguesa.\<newline>'' @
   ''- Inclua nome da empresa, compet'' @ [CHR 0xC3, CHR 0xAA] @ ''ncias principais, certifica'' @ [CHR 0xC3, CHR 0xA7, CHR 0xC3, CHR 0xB5] @ ''es e conquistas not'' @ [CHR 0xC3, CHR 0xA1] @ ''veis.\<newline>'' @
   ''- Destaque a relev'' @ [CHR 0xC3, CHR 0xA2] @ ''ncia para o projeto atual.\<newline>'' @
   ''- Mantenha abaixo de 200 palavras.\<newline>'' @
   ''- Formate com t'' @ [CHR 0xC3, CHR 0xAD] @ ''tulos e marcadores para clareza.\<newline>''\<close>

definition profile_spanish_example :: string where
  \<open>profile_spanish_example =
   ''\<newline>'' @
   ''Ejemplo de Perfil de la Empresa:\<newline>'' @
   ''\<newline>'' @
   ''**Alpha Consulting**\<newline>'' @
   ''Alpha Consulting es una firma de ingenier'' @ [CHR 0xC3, CHR 0xAD] @ ''a l'' @ [CHR 0xC3, CHR 0xAD] @ ''der con m'' @ [CHR 0xC3, CHR 0xA1] @ ''s de 20 a'' @ [CHR 0xC3, CHR 0xB1] @ ''os de experiencia en desarrollo de infraestructura.\<newline>'' @
   ''Puntos Fuertes:\<newline>'' @
   ''- Experiencia en soluciones de ciudades inteligentes\<newline>'' @
   ''- Certificaciones ISO 9001 e ISO 14001\<newline>'' @
   ''- Historial comprobado con m'' @ [CHR 0xC3, CHR 0xA1] @ ''s de 50 proyectos completados en 10 pa'' @ [CHR 0xC3, CHR 0xAD] @ ''ses\<newline>'' @
   ''\<newline>'' @
   ''Contacto: contacto@alphaconsulting.com | +34-555-123-456\<newline>''\<close>

definition profile_spanish_instructions :: string where
  \<open>profile_spanish_instructions =
   ''\<newline>'' @
   ''Eres un redactor t'' @ [CHR 0xC3, CHR 0xA9] @ ''cnico experto. Genera una secci'' @ [CHR 0xC3, CHR 0xB3] @ ''n de perfil de empresa concisa y atractiva para una propuesta.\<newline>'' @
   ''\<newline>'' @
   ''- Usa el idioma espa'' @ [CHR 0xC3, CHR 0xB1] @ ''ol.\<newline>'' @
   ''- Incluye nombre de la empresa, competencias clave, certificaciones y logros destacados.\<newline>'' @
   ''- Resalta la relevancia para el proyecto actual.\<newline>'' @
   ''- Mant'' @ [CHR 0xC3, CHR 0xA9] @ ''n menos de 200 palabras.\<newline>'' @
   ''- Formatea con encabezados y vi'' @ [CHR 0xC3, CHR 0xB1] @ ''etas para claridad.\<newline>''\<close>

definition profile_english :: profile_templates where
  "profile_english =
     \<lparr>example = profile_english_example, instructions = profile_english_instructions\<rparr>"

definition profile_portuguese :: profile_templates where
  "profile_portuguese =
     \<lparr>example = profile_portuguese_example, instructions = profile_portuguese_instructions\<rparr>"

definition profile_spanish :: profile_templates where
  "profile_spanish =
     \<lparr>example = profile_spanish_example, instructions = profile_spanish_instructions\<rparr>"

text \<open>The dict \<open>templates\<close> of \<open>get_language_profile_templates\<close>.\<close>

definition company_profiles_templates :: "(string \<times> profile_templates) list" where
  "company_profiles_templates =
     [(''english'', profile_english),
      (''portuguese'', profile_portuguese),
      (''spanish'', profile_spanish)]"

definition get_language_profile_templates :: "string \<Rightarrow> profile_templates" where
  "get_language_profile_templates language =
     (let language = lower language
      in dict_get (map_of company_profiles_templates) language profile_english)"

text \<open>
  The \<open>firm\<close> dict: two text entries and two lists of texts, each key present or not.
\<close>

record firm =
  name :: "string option"
  description :: "string option"
  certifications :: "string list option"
  achievements :: "string list option"

text \<open>\<open>firm[k]\<close> on an entry of the record, \<open>k\<close> the name of its key.\<close>

definition firm_item :: "'a option \<Rightarrow> string \<Rightarrow> error + 'a" where
  "firm_item entry k = (case entry of None \<Rightarrow> Inl (KeyError k) | Some v \<Rightarrow> Inr v)"

text \<open>\<open>firm.get(k, [])\<close>.\<close>

definition firm_get :: "'a list option \<Rightarrow> 'a list" where
  "firm_get entry = (case entry of None \<Rightarrow> [] | Some v \<Rightarrow> v)"

text \<open>\<open>x or y\<close> on texts: the empty text is false.\<close>

definition or_else :: "string \<Rightarrow> string \<Rightarrow> string" where
  "or_else x y = (if x = [] then y else x)"

definition company_profiles_build_prompt :: "firm \<Rightarrow> string \<Rightarrow> string \<Rightarrow> error + string" where
  "company_profiles_build_prompt firm project_relevance language =
     (let language =
            (if lower language \<in> set SUPPORTED_LANGUAGES then lower language else ''english'');
          tpl = get_language_profile_templates language;
          certs = join ''\<newline>'' (map (\<lambda>c. ''- '' @ c) (firm_get (certifications firm)));
          achieved = join ''\<newline>'' (map (\<lambda>a. ''- '' @ a) (firm_get (achievements firm)))
      in
        and_then (firm_item (name firm) ''name'') (\<lambda>firm_name.
        and_then (firm_item (description firm) ''description'') (\<lambda>firm_description.
          Inr (strip (
            ''\<newline>'' @
            instructions tpl @
            ''\<newline>'' @
            ''\<newline>'' @
            ''Generate a company profile using the data below.\<newline>'' @
            ''\<newline>'' @
            ''Company Name: '' @ firm_name @ ''\<newline>'' @
            ''Description: '' @ firm_description @ ''\<newline>'' @
            ''Certifications:\<newline>'' @
            or_else certs ''- None provided'' @ ''\<newline>'' @
            ''Key Achievements:\<newline>'' @
            or_else achieved ''- None provided'' @ ''\<newline>'' @
            ''Relevance to Project: '' @ project_relevance @ ''\<newline>'' @
            ''\<newline>'' @
            example tpl @
            ''\<newline>'' @
            ''\<newline>'' @
            ''Now produce the tailored company profile.\<newline>'')))))"

definition generate_company_profile ::
  "provider \<Rightarrow> firm \<Rightarrow> string \<Rightarrow> string \<Rightarrow> string outcome" where
  "generate_company_profile openai firm project_relevance language =
     (case company_profiles_build_prompt firm project_relevance language of
        Inl e \<Rightarrow> (Inl e, [])
      | Inr prompt \<Rightarrow>
          (case openai prompt of
             Raises e \<Rightarrow> (Inr (''Error generating company profile: '' @ message e), [prompt])
           | Returns text \<Rightarrow> (Inr (strip text), [prompt])))"

section \<open>project\_lists.py\<close>

text \<open>\<open>str(n)\<close> of a natural number: its decimal digits.\<close>

function str_nat :: "nat \<Rightarrow> string" where
  "str_nat n =
     (if n < 10 then [char_of (48 + n)]
      else str_nat (n div 10) @ [char_of (48 + n mod 10)])"
  by pat_completeness auto
termination
  by (relation "measure id") auto

text \<open>The fixed text of the prompt before the current project.\<close>

definition project_prompt_head :: string where
  \<open>project_prompt_head =
     ''\<newline>'' @
     ''You are a proposal analyst. Given the current project and a list of past projects, do the following:\<newline>'' @
     ''\<newline>'' @
     ''1. For each past project, rate its relevancy to the CURRENT PROJECT on a scale of 0'' @ [CHR 0xE2, CHR 0x80, CHR 0x93] @ ''100.\<newline>'' @
     ''2. Provide a one-sentence rationale for each rating.\<newline>'' @
     ''3. Suggest three additional project ideas or case studies (title + one-line description) that would strengthen our proposal.\<newline>'' @
     ''\<newline>'' @
     ''Use this format in JSON (no extra text):\<newline>'' @
     ''{\<newline>'' @
     ''  '' @ [CHR 0x22] @ ''evaluations'' @ [CHR 0x22] @ '': [\<newline>'' @
     ''    {\<newline>'' @
     ''      '' @ [CHR 0x22] @ ''title'' @ [CHR 0x22] @ '': '' @ [CHR 0x22] @ ''Project Title'' @ [CHR 0x22] @ '',\<newline>'' @
     ''      '' @ [CHR 0x22] @ ''score'' @ [CHR 0x22] @ '': 0'' @ [CHR 0xE2, CHR 0x80, CHR 0x93] @ ''100,\<newline>'' @
     ''      '' @ [CHR 0x22] @ ''rationale'' @ [CHR 0x22] @ '': '' @ [CHR 0x22] @ ''One sentence justification'' @ [CHR 0x22] @ ''\<newline>'' @
     ''    },\<newline>'' @
     ''    ...\<newline>'' @
     ''  ],\<newline>'' @
     ''  '' @ [CHR 0x22] @ ''additional_recommendations'' @ [CHR 0x22] @ '': [\<newline>'' @
     ''    {\<newline>'' @
     ''      '' @ [CHR 0x22] @ ''title'' @ [CHR 0x22] @ '': '' @ [CHR 0x22] @ ''Recommended Project Title'' @ [CHR 0x22] @ '',\<newline>'' @
     ''      '' @ [CHR 0x22] @ ''description'' @ [CHR 0x22] @ '': '' @ [CHR 0x22] @ ''One-line description'' @ [CHR 0x22] @ ''\<newline>'' @
     ''    },\<newline>'' @
     ''    ...\<newline>'' @
     ''  ]\<newline>'' @
     ''}\<newline>'' @
     ''\<newline>'' @
     ''CURRENT PROJECT:\<newline>'' @
     [CHR 0x22, CHR 0x22, CHR 0x22]\<close>

definition project_lists_build_prompt :: "string \<Rightarrow> dict list \<Rightarrow> error + string" where
  "project_lists_build_prompt current_project past_projects =
     and_then
       (comprehension
         (\<lambda>(i, p). and_then (getitem p ''title'') (\<lambda>t.
                   and_then (getitem p ''description'') (\<lambda>d.
                     Inr (str_nat (i + 1) @ ''. Title: '' @ t @ ''\<newline>'' @
                          ''   Description: '' @ d))))
         (enumerate 0 past_projects))
       (\<lambda>items.
         let project_list_text = join ''\<newline>'' items in
         Inr (strip (
           project_prompt_head @ current_project @ [CHR 0x22, CHR 0x22, CHR 0x22] @ ''\<newline>'' @
           ''\<newline>'' @
           ''PAST PROJECTS:\<newline>'' @
           project_list_text @ ''\<newline>'')))"

text \<open>
  What \<open>json.loads\<close> returns: the Python value of a JSON document. A number without
  fraction or exponent is an \<open>int\<close>, any other a \<open>float\<close>, kept here by its exact
  value; an object is a dict, kept as the list of its items.
\<close>

datatype json =
    JNull
  | JBool bool
  | JInt int
  | JFloat rat
  | JStr string
  | JArr "json list"
  | JObj "(string \<times> json) list"

text \<open>
  \<open>json.loads\<close> belongs to the standard library: it is a parameter, a function from the
  text to the value or to the exception it raises.

  \<open>generate_project_list\<close>: the prompt is built before the \<open>try\<close>. Inside it, a
  \<open>JSONDecodeError\<close> is turned into a \<open>ValueError\<close> that quotes the reply; a provider
  that raises a \<open>JSONDecodeError\<close> itself reaches that handler before \<open>content\<close> is
  bound, and formatting the message raises \<open>UnboundLocalError\<close>. Every other exception
  becomes a \<open>RuntimeError\<close>. The parsed value is returned as it is.
\<close>

definition generate_project_list ::
  "provider \<Rightarrow> (string \<Rightarrow> raised + json) \<Rightarrow> string \<Rightarrow> dict list \<Rightarrow> json outcome" where
  "generate_project_list openai json_loads current_project past_projects =
     (case project_lists_build_prompt current_project past_projects of
        Inl e \<Rightarrow> (Inl e, [])
      | Inr prompt \<Rightarrow>
          (case openai prompt of
             Raises (JSONDecodeError je) \<Rightarrow> (Inl (UnboundLocalError ''content''), [prompt])
           | Raises (OtherException e) \<Rightarrow> (Inl (RuntimeError (''OpenAI API error: '' @ e)), [prompt])
           | Returns text \<Rightarrow>
               (let content = strip text in
                case json_loads content of
                  Inl (JSONDecodeError je) \<Rightarrow>
                    (Inl (ValueError (''Failed to parse JSON from model response: '' @ je @
                            ''\<newline>'' @ ''Raw response:\<newline>'' @ content)), [prompt])
                | Inl (OtherException e) \<Rightarrow>
                    (Inl (RuntimeError (''OpenAI API error: '' @ e)), [prompt])
                | Inr data \<Rightarrow> (Inr data, [prompt]))))"

section \<open>contacts.py\<close>

text \<open>
  \<open>format_contact\<close> reads the four keys in the order of the f-string; the first missing
  one raises \<open>KeyError\<close>.
\<close>

definition format_contact :: "dict \<Rightarrow> error + string" where
  "format_contact contact =
     and_then (getitem contact ''name'') (\<lambda>n.
     and_then (getitem contact ''role'') (\<lambda>r.
     and_then (getitem contact ''email'') (\<lambda>m.
     and_then (getitem contact ''phone'') (\<lambda>p.
       Inr (''Name: '' @ n @ ''\<newline>'' @ ''Role: '' @ r @ ''\<newline>'' @
            ''Email: '' @ m @ ''\<newline>'' @ ''Phone: '' @ p)))))"

text \<open>
  \<open>sorted(contacts, key=...)\<close> is Python's stable sort; \<^const>\<open>sort_key\<close> is the stable
  insertion sort of the list library.
\<close>

definition generate_contact_list :: "dict list \<Rightarrow> string \<Rightarrow> error + string list" where
  "generate_contact_list contacts order_by =
     (let sorted_contacts = sort_key (\<lambda>x. dict_get x order_by '''') contacts
      in comprehension format_contact sorted_contacts)"

section \<open>Vocabulary of the properties\<close>

text \<open>The keys \<open>format_contact\<close> reads.\<close>

definition contact_keys :: "string list" where
  "contact_keys = [''name'', ''role'', ''email'', ''phone'']"

text \<open>
  An ASCII character that is not white space: such a byte is no white space and part of
  none of the longer encodings, so \<open>strip\<close> stops at it from either side.
\<close>

definition plain :: "char \<Rightarrow> bool" where
  "plain c = ((of_char c :: nat) < 128 \<and> \<not> space1 c)"

text \<open>
  The shape the specification asks of an evaluation result for \<open>n\<close> past projects: a
  dict whose \<open>evaluations\<close> is a list of \<open>n\<close> entries, each with a numeric \<open>score\<close>
  between 0 and 100, and whose \<open>additional_recommendations\<close> is a list of 3 entries.
\<close>

definition score_in_range :: "json \<Rightarrow> bool" where
  "score_in_range evaluation =
     (case evaluation of
        JObj items \<Rightarrow>
          (case map_of items ''score'' of
             Some (JInt n) \<Rightarrow> 0 \<le> n \<and> n \<le> 100
           | Some (JFloat q) \<Rightarrow> 0 \<le> q \<and> q \<le> 100
           | _ \<Rightarrow> False)
      | _ \<Rightarrow> False)"

definition evaluation_result_ok :: "nat \<Rightarrow> json \<Rightarrow> bool" where
  "evaluation_result_ok n data =
     (case data of
        JObj items \<Rightarrow>
          (case map_of items ''evaluations'' of
             Some (JArr evaluations) \<Rightarrow>
               (case map_of items ''additional_recommendations'' of
                  Some (JArr recommendations) \<Rightarrow>
                    length evaluations = n \<and> list_all score_in_range evaluations \<and>
                    length recommendations = 3
                | _ \<Rightarrow> False)
           | _ \<Rightarrow> False)
      | _ \<Rightarrow> False)"

section \<open>Example data\<close>

text \<open>The data of the manual tests that close the modules.\<close>

definition power_of_attorney_parties :: "dict list" where
  "power_of_attorney_parties =
     [map_of [(''name'', ''John Doe''), (''role'', ''Principal'')],
      map_of [(''name'', ''Jane Smith''), (''role'', ''Attorney-in-fact'')]]"

definition letter_of_association_parties :: "dict list" where
  "letter_of_association_parties =
     [map_of [(''name'', ''Alpha Consulting''), (''role'', ''Lead Firm'')],
      map_of [(''name'', ''Beta Engineering''), (''role'', ''Partner'')],
      map_of [(''name'', ''Gamma Solutions''), (''role'', ''Partner'')]]"

definition sample_firm :: firm where
  "sample_firm =
     \<lparr>name = Some ''Alpha Consulting'',
      description =
        Some ''A multidisciplinary engineering firm specializing in urban infrastructure.'',
      certifications = Some [''ISO 9001'', ''ISO 14001''],
      achievements =
        Some [''Completed 50+ international projects'', ''Awarded Best Green Design 2023'']\<rparr>"

definition relevance :: string where
  "relevance =
     ''Their expertise in urban infrastructure directly supports the Smart City project objectives.''"

definition current :: string where
  "current = ''Implementation of AI-based water conservation and distribution systems.''"

definition past :: "dict list" where
  "past =
     [map_of [(''title'', ''Urban Smart Grid Deployment''),
              (''description'', ''Developed a city-wide smart grid to optimize energy consumption.'')],
      map_of [(''title'', ''IoT Environmental Monitoring''),
              (''description'', ''Built an IoT network to track air and water quality in real time.'')],
      map_of [(''title'', ''Rural Solar Expansion''),
              (''description'', ''Expanded solar panel installations in rural communities.'')]]"

text \<open>Two contacts, and a third entry that has a name only.\<close>

definition bob :: dict where
  "bob = map_of [(''name'', ''Bob''), (''role'', ''Engineer''),
                 (''email'', ''bob@example.com''), (''phone'', ''555-0101'')]"

definition ann :: dict where
  "ann = map_of [(''name'', ''Ann''), (''role'', ''Manager''),
                 (''email'', ''ann@example.com''), (''phone'', ''555-0102'')]"

definition cy :: dict where
  "cy = map_of [(''name'', ''Cy'')]"

text \<open>A provider that answers every prompt with the same text, and one that raises.\<close>

definition replies :: "string \<Rightarrow> provider" where
  "replies text prompt = Returns text"

definition fails :: "string \<Rightarrow> provider" where
  "fails m prompt = Raises (OtherException m)"

text \<open>
  \<open>json.loads\<close> as far as an example needs it: the value of the one document, and the
  \<open>JSONDecodeError\<close> of a text that does not start a JSON value.
\<close>

definition loads_as :: "string \<Rightarrow> json \<Rightarrow> string \<Rightarrow> raised + json" where
  "loads_as document v s =
     (if s = document then Inr v
      else Inl (JSONDecodeError ''Expecting value: line 1 column 1 (char 0)''))"

definition quoted :: "string \<Rightarrow> string" where
  "quoted s = [CHR 0x22] @ s @ [CHR 0x22]"

text \<open>A reply that is a JSON document with no evaluation and no recommendation.\<close>

definition reply_empty :: string where
  "reply_empty =
     ''{'' @ quoted ''evaluations'' @ '': [], '' @
     quoted ''additional_recommendations'' @ '': []}''"

definition value_empty :: json where
  "value_empty = JObj [(''evaluations'', JArr []), (''additional_recommendations'', JArr [])]"

text \<open>A reply with two evaluations and three recommendations.\<close>

definition reply_two_evaluations :: string where
  "reply_two_evaluations =
     ''{'' @ quoted ''evaluations'' @ '': ['' @
     ''{'' @ quoted ''title'' @ '': '' @ quoted ''Urban Smart Grid Deployment'' @ '', '' @
       quoted ''score'' @ '': 80, '' @ quoted ''rationale'' @ '': '' @ quoted ''Shared control.'' @
     ''}, '' @
     ''{'' @ quoted ''title'' @ '': '' @ quoted ''IoT Environmental Monitoring'' @ '', '' @
       quoted ''score'' @ '': 90, '' @ quoted ''rationale'' @ '': '' @ quoted ''Same sensing.'' @
     ''}], '' @
     quoted ''additional_recommendations'' @ '': ['' @
     ''{'' @ quoted ''title'' @ '': '' @ quoted ''A'' @ '', '' @
       quoted ''description'' @ '': '' @ quoted ''a'' @ ''}, '' @
     ''{'' @ quoted ''title'' @ '': '' @ quoted ''B'' @ '', '' @
       quoted ''description'' @ '': '' @ quoted ''b'' @ ''}, '' @
     ''{'' @ quoted ''title'' @ '': '' @ quoted ''C'' @ '', '' @
       quoted ''description'' @ '': '' @ quoted ''c'' @ ''}]}''"

definition value_two_evaluations :: json where
  "value_two_evaluations =
     JObj [(''evaluations'',
            JArr [JObj [(''title'', JStr ''Urban Smart Grid Deployment''), (''score'', JInt 80),
                        (''rationale'', JStr ''Shared control.'')],
                  JObj [(''title'', JStr ''IoT Environmental Monitoring''), (''score'', JInt 90),
                        (''rationale'', JStr ''Same sensing.'')]]),
           (''additional_recommendations'',
            JArr [JObj [(''title'', JStr ''A''), (''description'', JStr ''a'')],
                  JObj [(''title'', JStr ''B''), (''description'', JStr ''b'')],
                  JObj [(''title'', JStr ''C''), (''description'', JStr ''c'')]])]"

section \<open>Auxiliary facts\<close>

lemma and_then_Inr [simp]: "and_then (Inr v) f = f v"
  by (simp add: and_then_def)

lemma and_then_Inl [simp]: "and_then (Inl e) f = Inl e"
  by (simp add: and_then_def)

lemma and_then_eq_Inr: "and_then r f = Inr y \<longleftrightarrow> (\<exists>v. r = Inr v \<and> f v = Inr y)"
  by (cases r) simp_all

lemma and_then_eq_Inl: "and_then r f = Inl e \<longleftrightarrow> r = Inl e \<or> (\<exists>v. r = Inr v \<and> f v = Inl e)"
  by (cases r) simp_all

lemma comprehension_eq_Inr: "comprehension f xs = Inr ys \<longleftrightarrow> map f xs = map Inr ys"
proof (induction xs arbitrary: ys)
  case Nil
  then show ?case by auto
next
  case (Cons x xs)
  show ?case
  proof (cases ys)
    case Nil
    then show ?thesis by (auto simp: and_then_eq_Inr)
  next
    case (Cons y ys')
    then show ?thesis using Cons.IH [of ys'] by (auto simp: and_then_eq_Inr)
  qed
qed

lemma comprehension_eq_Inl: "comprehension f xs = Inl e \<Longrightarrow> \<exists>x \<in> set xs. f x = Inl e"
  by (induction xs) (auto simp: and_then_eq_Inl)

lemma comprehension_raises:
  "x \<in> set xs \<Longrightarrow> f x = Inl e \<Longrightarrow> \<exists>e'. comprehension f xs = Inl e'"
proof (induction xs)
  case Nil
  then show ?case by simp
next
  case (Cons a xs)
  then show ?case
    by (cases "f a"; cases "comprehension f xs") auto
qed

lemma comprehension_returns:
  "(\<And>x. x \<in> set xs \<Longrightarrow> \<exists>y. f x = Inr y) \<Longrightarrow> \<exists>ys. comprehension f xs = Inr ys"
proof (induction xs)
  case Nil
  then show ?case by simp
next
  case (Cons a xs)
  then obtain y where "f a = Inr y" by force
  moreover from Cons obtain ys where "comprehension f xs = Inr ys" by force
  ultimately show ?case by simp
qed

lemma getitem_eq_Inr: "getitem d k = Inr v \<longleftrightarrow> d k = Some v"
  by (simp add: getitem_def split: option.splits)

lemma getitem_eq_Inl: "getitem d k = Inl e \<longleftrightarrow> d k = None \<and> e = KeyError k"
  by (auto simp: getitem_def split: option.splits)

lemma format_contact_returns:
  "(\<exists>s. format_contact c = Inr s) \<longleftrightarrow> (\<forall>k \<in> set contact_keys. c k \<noteq> None)"
  by (simp add: format_contact_def contact_keys_def getitem_def split: option.splits)

lemma format_contact_raises:
  "format_contact c = Inl e \<Longrightarrow> \<exists>k \<in> set contact_keys. c k = None \<and> e = KeyError k"
  by (simp add: format_contact_def contact_keys_def getitem_def split: option.splits)

subsection \<open>strip\<close>

lemma plain_not_space:
  assumes "plain c"
  shows "\<not> space1 c" and "\<not> space2 c b" and "\<not> space2 a c"
    and "\<not> space3 c a b" and "\<not> space3 a b c"
  using assms by (auto simp: plain_def space2_def space3_def Let_def)

lemma lstrip_space1: "space1 a \<Longrightarrow> lstrip (a # s) = lstrip s"
  by (cases "a # s" rule: lstrip.cases) auto

lemma lstrip_plain: "plain c \<Longrightarrow> lstrip (c # s) = c # s"
  by (cases "c # s" rule: lstrip.cases) (auto simp: plain_not_space)

lemma rstrip_rev_space1: "space1 a \<Longrightarrow> rstrip_rev (a # s) = rstrip_rev s"
  by (cases "a # s" rule: rstrip_rev.cases) auto

lemma rstrip_rev_plain: "plain c \<Longrightarrow> rstrip_rev (c # s) = c # s"
  by (cases "c # s" rule: rstrip_rev.cases) (auto simp: plain_not_space)

lemma rstrip_plain: "plain d \<Longrightarrow> rstrip (s @ [d]) = s @ [d]"
  by (simp add: rstrip_def rstrip_rev_plain)

lemma rstrip_space1: "space1 e \<Longrightarrow> rstrip (s @ [e]) = rstrip s"
  by (simp add: rstrip_def rstrip_rev_space1)

lemma strip_framed:
  assumes "space1 a" and "space1 b" and "plain c" and "plain d" and "space1 e"
  shows "strip (a # b # c # s @ [d, e]) = c # s @ [d]"
proof -
  have "lstrip (a # b # c # s @ [d, e]) = c # s @ [d, e]"
    using assms by (simp add: lstrip_space1 lstrip_plain)
  moreover have "rstrip ((c # s @ [d]) @ [e]) = rstrip (c # s @ [d])"
    using assms(5) by (rule rstrip_space1)
  moreover have "rstrip ((c # s) @ [d]) = (c # s) @ [d]"
    using assms(4) by (rule rstrip_plain)
  ultimately show ?thesis
    by (simp add: strip_def)
qed

lemma strip_plain_ends: "plain c \<Longrightarrow> plain d \<Longrightarrow> strip (c # s @ [d]) = c # s @ [d]"
proof -
  assume c: "plain c" and d: "plain d"
  have "rstrip ((c # s) @ [d]) = (c # s) @ [d]"
    using d by (rule rstrip_plain)
  with c show ?thesis
    by (simp add: strip_def lstrip_plain)
qed

lemma space1_newline [simp]: "space1 (CHR ''\<newline>'')"
  by (simp add: space1_def)


lemma strip_prompt:
  assumes "t = CHR ''\<newline>'' # c # s" and "plain c" and "plain d"
  shows "strip (''\<newline>'' @ t @ mid @ [d] @ ''\<newline>'') = tl t @ mid @ [d]"
proof -
  have "strip (CHR ''\<newline>'' # CHR ''\<newline>'' # c # (s @ mid) @ [d, CHR ''\<newline>'']) = c # (s @ mid) @ [d]"
    using assms(2,3) by (intro strip_framed) simp_all
  then show ?thesis
    by (simp add: assms(1))
qed

subsection \<open>The templates\<close>

lemma plain_letters [simp]:
  "plain (CHR ''Y'')" "plain (CHR ''V'')" "plain (CHR ''E'')" "plain (CHR '':'')" "plain (CHR ''.'')"
  by (simp_all add: plain_def space1_def)

lemma legal_templates_open:
  "\<exists>s. legal_english_power_of_attorney = CHR ''\<newline>'' # CHR ''Y'' # s"
  "\<exists>s. legal_english_letter_of_association = CHR ''\<newline>'' # CHR ''Y'' # s"
  "\<exists>s. legal_portuguese_power_of_attorney = CHR ''\<newline>'' # CHR ''V'' # s"
  "\<exists>s. legal_portuguese_letter_of_association = CHR ''\<newline>'' # CHR ''V'' # s"
  "\<exists>s. legal_spanish_power_of_attorney = CHR ''\<newline>'' # CHR ''E'' # s"
  "\<exists>s. legal_spanish_letter_of_association = CHR ''\<newline>'' # CHR ''E'' # s"
  by (simp_all add: legal_english_power_of_attorney_def legal_english_letter_of_association_def
      legal_portuguese_power_of_attorney_def legal_portuguese_letter_of_association_def
      legal_spanish_power_of_attorney_def legal_spanish_letter_of_association_def)

lemma profile_templates_open:
  "\<exists>s. profile_english_instructions = CHR ''\<newline>'' # CHR ''Y'' # s"
  "\<exists>s. profile_portuguese_instructions = CHR ''\<newline>'' # CHR ''V'' # s"
  "\<exists>s. profile_spanish_instructions = CHR ''\<newline>'' # CHR ''E'' # s"
  by (simp_all add: profile_english_instructions_def profile_portuguese_instructions_def
      profile_spanish_instructions_def)

lemma lower_supported [simp]:
  "lower ''english'' = ''english''" "lower ''portuguese'' = ''portuguese''"
  "lower ''spanish'' = ''spanish''"
  by (simp_all add: lower_def lower_char_def)

lemma get_language_legal_templates_cases:
  "get_language_legal_templates l =
     (if lower l = ''english'' then legal_english
      else if lower l = ''portuguese'' then legal_portuguese
      else if lower l = ''spanish'' then legal_spanish
      else legal_english)"
  by (simp add: get_language_legal_templates_def legal_docs_templates_def dict_get_def)

lemma get_language_legal_templates_range:
  "get_language_legal_templates l = legal_english \<or>
   get_language_legal_templates l = legal_portuguese \<or>
   get_language_legal_templates l = legal_spanish"
  by (simp add: get_language_legal_templates_cases)

lemma get_language_legal_templates_supported:
  assumes "(L, T) \<in> set legal_docs_templates" and "lower l = L"
  shows "get_language_legal_templates l = T"
proof -
  from assms(1)
  consider "L = ''english''" "T = legal_english"
    | "L = ''portuguese''" "T = legal_portuguese"
    | "L = ''spanish''" "T = legal_spanish"
    unfolding legal_docs_templates_def by fastforce
  then show ?thesis
    using assms(2) by cases (simp_all add: get_language_legal_templates_cases)
qed

lemma power_of_attorney_open:
  "\<exists>c s. power_of_attorney (get_language_legal_templates l) = CHR ''\<newline>'' # c # s \<and> plain c"
proof -
  let ?T = "get_language_legal_templates l"
  from get_language_legal_templates_range [of l]
  consider "?T = legal_english" | "?T = legal_portuguese" | "?T = legal_spanish" by blast
  then show ?thesis
  proof cases
    case 1
    obtain s where "legal_english_power_of_attorney = CHR ''\<newline>'' # CHR ''Y'' # s"
      using legal_templates_open(1) ..
    with 1 have "power_of_attorney ?T = CHR ''\<newline>'' # CHR ''Y'' # s"
      by (simp add: legal_english_def)
    then show ?thesis
      using plain_letters by blast
  next
    case 2
    obtain s where "legal_portuguese_power_of_attorney = CHR ''\<newline>'' # CHR ''V'' # s"
      using legal_templates_open(3) ..
    with 2 have "power_of_attorney ?T = CHR ''\<newline>'' # CHR ''V'' # s"
      by (simp add: legal_portuguese_def)
    then show ?thesis
      using plain_letters by blast
  next
    case 3
    obtain s where "legal_spanish_power_of_attorney = CHR ''\<newline>'' # CHR ''E'' # s"
      using legal_templates_open(5) ..
    with 3 have "power_of_attorney ?T = CHR ''\<newline>'' # CHR ''E'' # s"
      by (simp add: legal_spanish_def)
    then show ?thesis
      using plain_letters by blast
  qed
qed

lemma letter_of_association_open:
  "\<exists>c s. letter_of_association (get_language_legal_templates l) = CHR ''\<newline>'' # c # s \<and> plain c"
proof -
  let ?T = "get_language_legal_templates l"
  from get_language_legal_templates_range [of l]
  consider "?T = legal_english" | "?T = legal_portuguese" | "?T = legal_spanish" by blast
  then show ?thesis
  proof cases
    case 1
    obtain s where "legal_english_letter_of_association = CHR ''\<newline>'' # CHR ''Y'' # s"
      using legal_templates_open(2) ..
    with 1 have "letter_of_association ?T = CHR ''\<newline>'' # CHR ''Y'' # s"
      by (simp add: legal_english_def)
    then show ?thesis
      using plain_letters by blast
  next
    case 2
    obtain s where "legal_portuguese_letter_of_association = CHR ''\<newline>'' # CHR ''V'' # s"
      using legal_templates_open(4) ..
    with 2 have "letter_of_association ?T = CHR ''\<newline>'' # CHR ''V'' # s"
      by (simp add: legal_portuguese_def)
    then show ?thesis
      using plain_letters by blast
  next
    case 3
    obtain s where "legal_spanish_letter_of_association = CHR ''\<newline>'' # CHR ''E'' # s"
      using legal_templates_open(6) ..
    with 3 have "letter_of_association ?T = CHR ''\<newline>'' # CHR ''E'' # s"
      by (simp add: legal_spanish_def)
    then show ?thesis
      using plain_letters by blast
  qed
qed

lemma get_language_profile_templates_cases:
  "get_language_profile_templates l =
     (if lower l = ''english'' then profile_english
      else if lower l = ''portuguese'' then profile_portuguese
      else if lower l = ''spanish'' then profile_spanish
      else profile_english)"
  by (simp add: get_language_profile_templates_def company_profiles_templates_def dict_get_def)

lemma get_language_profile_templates_range:
  "get_language_profile_templates l = profile_english \<or>
   get_language_profile_templates l = profile_portuguese \<or>
   get_language_profile_templates l = profile_spanish"
  by (simp add: get_language_profile_templates_cases)

lemma get_language_profile_templates_supported:
  assumes "(L, T) \<in> set company_profiles_templates" and "lower l = L"
  shows "get_language_profile_templates l = T"
proof -
  from assms(1)
  consider "L = ''english''" "T = profile_english"
    | "L = ''portuguese''" "T = profile_portuguese"
    | "L = ''spanish''" "T = profile_spanish"
    unfolding company_profiles_templates_def by fastforce
  then show ?thesis
    using assms(2) by cases (simp_all add: get_language_profile_templates_cases)
qed

lemma instructions_open:
  "\<exists>c s. instructions (get_language_profile_templates l) = CHR ''\<newline>'' # c # s \<and> plain c"
proof -
  let ?T = "get_language_profile_templates l"
  from get_language_profile_templates_range [of l]
  consider "?T = profile_english" | "?T = profile_portuguese" | "?T = profile_spanish" by blast
  then show ?thesis
  proof cases
    case 1
    obtain s where "profile_english_instructions = CHR ''\<newline>'' # CHR ''Y'' # s"
      using profile_templates_open(1) ..
    with 1 have "instructions ?T = CHR ''\<newline>'' # CHR ''Y'' # s"
      by (simp add: profile_english_def)
    then show ?thesis
      using plain_letters by blast
  next
    case 2
    obtain s where "profile_portuguese_instructions = CHR ''\<newline>'' # CHR ''V'' # s"
      using profile_templates_open(2) ..
    with 2 have "instructions ?T = CHR ''\<newline>'' # CHR ''V'' # s"
      by (simp add: profile_portuguese_def)
    then show ?thesis
      using plain_letters by blast
  next
    case 3
    obtain s where "profile_spanish_instructions = CHR ''\<newline>'' # CHR ''E'' # s"
      using profile_templates_open(3) ..
    with 3 have "instructions ?T = CHR ''\<newline>'' # CHR ''E'' # s"
      by (simp add: profile_spanish_def)
    then show ?thesis
      using plain_letters by blast
  qed
qed

subsection \<open>The prompts\<close>

lemma party_item_0: "party_item (p # ps) 0 k = getitem p k"
  by (simp add: party_item_def list_getitem_def)

lemma party_item_1: "party_item (p # q # ps) (Suc 0) k = getitem q k"
  by (simp add: party_item_def list_getitem_def)

lemma party_item_short: "length ps \<le> i \<Longrightarrow> party_item ps i k = Inl IndexError"
  by (simp add: party_item_def list_getitem_def)

lemma legal_prompt_power_of_attorney:
  assumes "p ''name'' = Some n0" and "p ''role'' = Some r0"
    and "q ''name'' = Some n1" and "q ''role'' = Some r1"
  shows "legal_docs_build_prompt ''power_of_attorney'' (p # q # ps) project_name l =
     Inr (tl (power_of_attorney (get_language_legal_templates l)) @
          ''\<newline>\<newline>Project Name: '' @ project_name @ ''\<newline>\<newline>'' @
          ''Principal: '' @ n0 @ '' ('' @ r0 @ '')\<newline>'' @
          ''Attorney-in-fact: '' @ n1 @ '' ('' @ r1 @ '')\<newline>\<newline>'' @
          ''Generate the full legal Power of Attorney document below:'')"
proof -
  obtain c s where T: "power_of_attorney (get_language_legal_templates l) = CHR ''\<newline>'' # c # s"
    and c: "plain c"
    using power_of_attorney_open by blast
  have "plain (CHR '':'')" by simp
  from strip_prompt [OF T c this,
      of "''\<newline>\<newline>Project Name: '' @ project_name @ ''\<newline>\<newline>'' @
          ''Principal: '' @ n0 @ '' ('' @ r0 @ '')\<newline>'' @
          ''Attorney-in-fact: '' @ n1 @ '' ('' @ r1 @ '')\<newline>\<newline>'' @
          ''Generate the full legal Power of Attorney document below''"]
  show ?thesis
    using assms
    by (simp add: legal_docs_build_prompt_def party_item_0 party_item_1 getitem_def)
qed

lemma legal_prompt_letter_of_association:
  assumes "comprehension
            (\<lambda>p. and_then (getitem p ''name'') (\<lambda>n.
                 and_then (getitem p ''role'') (\<lambda>r.
                   Inr (''- '' @ n @ '' ('' @ r @ '')''))))
            parties = Inr firms"
  shows "legal_docs_build_prompt ''letter_of_association'' parties project_name l =
     Inr (tl (letter_of_association (get_language_legal_templates l)) @
          ''\<newline>\<newline>Project Name: '' @ project_name @ ''\<newline>\<newline>'' @
          ''Participating Firms:\<newline>'' @ join ''\<newline>'' firms @ ''\<newline>\<newline>'' @
          ''Generate the full legal Letter of Association document below:'')"
proof -
  obtain c s where T: "letter_of_association (get_language_legal_templates l) = CHR ''\<newline>'' # c # s"
    and c: "plain c"
    using letter_of_association_open by blast
  have "plain (CHR '':'')" by simp
  from strip_prompt [OF T c this,
      of "''\<newline>\<newline>Project Name: '' @ project_name @ ''\<newline>\<newline>'' @
          ''Participating Firms:\<newline>'' @ join ''\<newline>'' firms @ ''\<newline>\<newline>'' @
          ''Generate the full legal Letter of Association document below''"]
  show ?thesis
    using assms
    by (simp add: legal_docs_build_prompt_def)
qed

lemma profile_language:
  "get_language_profile_templates
     (if lower l \<in> set SUPPORTED_LANGUAGES then lower l else ''english'') =
   get_language_profile_templates l"
proof (cases "lower l \<in> set SUPPORTED_LANGUAGES")
  case True
  then consider "lower l = ''english''" | "lower l = ''portuguese''" | "lower l = ''spanish''"
    unfolding SUPPORTED_LANGUAGES_def by fastforce
  then have "lower (lower l) = lower l"
    by cases simp_all
  with True show ?thesis
    by (simp add: get_language_profile_templates_cases)
next
  case False
  then have "lower l \<noteq> ''english''" "lower l \<noteq> ''portuguese''" "lower l \<noteq> ''spanish''"
    unfolding SUPPORTED_LANGUAGES_def by simp_all
  with False show ?thesis
    by (simp add: get_language_profile_templates_cases)
qed

lemma profile_prompt:
  assumes "name firm = Some n" and "description firm = Some d"
  shows "company_profiles_build_prompt firm project_relevance l =
     Inr (tl (instructions (get_language_profile_templates l)) @
          ''\<newline>\<newline>Generate a company profile using the data below.\<newline>\<newline>'' @
          ''Company Name: '' @ n @ ''\<newline>'' @
          ''Description: '' @ d @ ''\<newline>'' @
          ''Certifications:\<newline>'' @
          or_else (join ''\<newline>'' (map (\<lambda>c. ''- '' @ c) (firm_get (certifications firm))))
            ''- None provided'' @ ''\<newline>'' @
          ''Key Achievements:\<newline>'' @
          or_else (join ''\<newline>'' (map (\<lambda>a. ''- '' @ a) (firm_get (achievements firm))))
            ''- None provided'' @ ''\<newline>'' @
          ''Relevance to Project: '' @ project_relevance @ ''\<newline>\<newline>'' @
          example (get_language_profile_templates l) @ ''\<newline>\<newline>'' @
          ''Now produce the tailored company profile.'')"
proof -
  obtain c s where T: "instructions (get_language_profile_templates l) = CHR ''\<newline>'' # c # s"
    and c: "plain c"
    using instructions_open by blast
  have "plain (CHR ''.'')" by simp
  from strip_prompt [OF T c this,
      of "''\<newline>\<newline>Generate a company profile using the data below.\<newline>\<newline>'' @
          ''Company Name: '' @ n @ ''\<newline>'' @
          ''Description: '' @ d @ ''\<newline>'' @
          ''Certifications:\<newline>'' @
          or_else (join ''\<newline>'' (map (\<lambda>c. ''- '' @ c) (firm_get (certifications firm))))
            ''- None provided'' @ ''\<newline>'' @
          ''Key Achievements:\<newline>'' @
          or_else (join ''\<newline>'' (map (\<lambda>a. ''- '' @ a) (firm_get (achievements firm))))
            ''- None provided'' @ ''\<newline>'' @
          ''Relevance to Project: '' @ project_relevance @ ''\<newline>\<newline>'' @
          example (get_language_profile_templates l) @ ''\<newline>\<newline>'' @
          ''Now produce the tailored company profile''"]
  show ?thesis
    using assms
    by (simp add: company_profiles_build_prompt_def profile_language firm_item_def Let_def)
qed

lemma lower_unsupported:
  assumes "lower l \<notin> set SUPPORTED_LANGUAGES"
  shows "lower l \<noteq> ''english''" and "lower l \<noteq> ''portuguese''" and "lower l \<noteq> ''spanish''"
  using assms unfolding SUPPORTED_LANGUAGES_def by simp_all

lemma power_of_attorney_short:
  assumes "length parties < 2"
  shows "\<exists>e \<in> {IndexError, KeyError ''name'', KeyError ''role''}.
           legal_docs_build_prompt ''power_of_attorney'' parties project_name l = Inl e"
proof (cases parties)
  case Nil
  then show ?thesis
    by (simp add: legal_docs_build_prompt_def party_item_short)
next
  case (Cons p ps)
  with assms have ps: "ps = []" by simp
  have short: "party_item [p] (Suc 0) k = Inl IndexError" for k
    by (simp add: party_item_short)
  show ?thesis
    unfolding Cons ps
    by (cases "p ''name''"; cases "p ''role''")
      (simp_all add: legal_docs_build_prompt_def party_item_0 short getitem_def)
qed

subsection \<open>The project evaluation\<close>

lemma project_prompt_built:
  assumes "\<forall>p \<in> set past_projects. p ''title'' \<noteq> None \<and> p ''description'' \<noteq> None"
  shows "\<exists>prompt. project_lists_build_prompt current_project past_projects = Inr prompt"
proof -
  let ?f = "\<lambda>(i :: nat, p :: dict). and_then (getitem p ''title'') (\<lambda>t.
              and_then (getitem p ''description'') (\<lambda>d.
                Inr (str_nat (i + 1) @ ''. Title: '' @ t @ ''\<newline>'' @
                     ''   Description: '' @ d)))"
  have "\<exists>y. ?f x = Inr y" if "x \<in> set (enumerate 0 past_projects)" for x
  proof -
    obtain i p where x: "x = (i, p)" by (cases x)
    with that have "p \<in> set past_projects"
      by (auto simp: in_set_enumerate_eq)
    with assms obtain t d where "p ''title'' = Some t" "p ''description'' = Some d"
      by auto
    then show ?thesis
      by (simp add: x getitem_def)
  qed
  then obtain items where "comprehension ?f (enumerate 0 past_projects) = Inr items"
    using comprehension_returns [of "enumerate 0 past_projects" ?f] by auto
  then show ?thesis
    by (simp add: project_lists_build_prompt_def)
qed

lemma generate_project_list_returns:
  assumes "project_lists_build_prompt current_project past_projects = Inr prompt"
    and "openai prompt = Returns text" and "json_loads (strip text) = Inr v"
  shows "generate_project_list openai json_loads current_project past_projects = (Inr v, [prompt])"
  using assms by (simp add: generate_project_list_def)

lemma strip_braces: "strip (CHR ''{'' # s @ ''}'') = CHR ''{'' # s @ ''}''"
  by (rule strip_plain_ends) (simp_all add: plain_def space1_def)

lemma strip_reply_empty: "strip reply_empty = reply_empty"
proof -
  let ?s = "quoted ''evaluations'' @ '': [], '' @ quoted ''additional_recommendations'' @ '': []''"
  have "strip reply_empty = strip (CHR ''{'' # ?s @ ''}'')"
    by (simp add: reply_empty_def)
  also have "\<dots> = CHR ''{'' # ?s @ ''}''"
    by (rule strip_braces)
  also have "\<dots> = reply_empty"
    by (simp add: reply_empty_def)
  finally show ?thesis .
qed

lemma strip_reply_two_evaluations: "strip reply_two_evaluations = reply_two_evaluations"
proof -
  let ?s = "butlast (tl reply_two_evaluations)"
  have eq: "reply_two_evaluations = CHR ''{'' # ?s @ ''}''"
    by (simp add: reply_two_evaluations_def quoted_def)
  have "strip (CHR ''{'' # ?s @ ''}'') = CHR ''{'' # ?s @ ''}''"
    by (rule strip_braces)
  with eq show ?thesis
    by metis
qed

lemma past_complete: "\<forall>p \<in> set past. p ''title'' \<noteq> None \<and> p ''description'' \<noteq> None"
  by (simp add: past_def)

subsection \<open>Prompts that were built\<close>

lemma power_of_attorney_prompt_prefix:
  assumes "legal_docs_build_prompt ''power_of_attorney'' parties project_name l = Inr p"
  shows "prefix (tl (power_of_attorney (get_language_legal_templates l))) p"
proof -
  from assms obtain n0 r0 n1 r1 where
    items: "party_item parties 0 ''name'' = Inr n0" "party_item parties 0 ''role'' = Inr r0"
      "party_item parties (Suc 0) ''name'' = Inr n1" "party_item parties (Suc 0) ''role'' = Inr r1"
    by (auto simp: legal_docs_build_prompt_def and_then_eq_Inr)
  from items(3) have "Suc 0 < length parties"
    by (auto simp: party_item_def list_getitem_def and_then_eq_Inr split: if_splits)
  then obtain a b rest where ps: "parties = a # b # rest"
    by (cases parties; cases "tl parties") auto
  from items have "a ''name'' = Some n0" "a ''role'' = Some r0"
    "b ''name'' = Some n1" "b ''role'' = Some r1"
    by (simp_all add: ps party_item_0 party_item_1 getitem_eq_Inr)
  from legal_prompt_power_of_attorney [OF this, of rest project_name l] assms
  show ?thesis
    unfolding ps by auto
qed

lemma letter_of_association_prompt_prefix:
  assumes "legal_docs_build_prompt ''letter_of_association'' parties project_name l = Inr p"
  shows "prefix (tl (letter_of_association (get_language_legal_templates l))) p"
proof -
  from assms obtain firms where "comprehension
            (\<lambda>p. and_then (getitem p ''name'') (\<lambda>n.
                 and_then (getitem p ''role'') (\<lambda>r.
                   Inr (''- '' @ n @ '' ('' @ r @ '')''))))
            parties = Inr firms"
    by (auto simp: legal_docs_build_prompt_def and_then_eq_Inr)
  from legal_prompt_letter_of_association [OF this, of project_name l] assms
  show ?thesis
    by simp
qed

lemma profile_prompt_built:
  assumes "company_profiles_build_prompt firm project_relevance l = Inr p"
  shows "\<exists>n d. name firm = Some n \<and> description firm = Some d"
  using assms
  by (cases "name firm"; cases "description firm")
    (simp_all add: company_profiles_build_prompt_def firm_item_def Let_def)

lemma profile_prompt_prefix:
  assumes "company_profiles_build_prompt firm project_relevance l = Inr p"
  shows "prefix (tl (instructions (get_language_profile_templates l))) p"
proof -
  from profile_prompt_built [OF assms]
  obtain n d where "name firm = Some n" "description firm = Some d" by blast
  from profile_prompt [OF this, of project_relevance l] assms
  show ?thesis
    by simp
qed

lemma supported_lower:
  assumes "L \<in> set SUPPORTED_LANGUAGES"
  shows "lower L = L"
proof -
  from assms consider "L = ''english''" | "L = ''portuguese''" | "L = ''spanish''"
    unfolding SUPPORTED_LANGUAGES_def by fastforce
  then show ?thesis by cases simp_all
qed

lemma sublist_pair: "sublist (a # b # s) t \<Longrightarrow> (a, b) \<in> set (zip t (tl t))"
proof (induction t)
  case Nil
  then show ?case by simp
next
  case (Cons y ys)
  from Cons.prems have "prefix (a # b # s) (y # ys) \<or> sublist (a # b # s) ys"
    by (simp add: sublist_code)
  then show ?case
  proof
    assume "prefix (a # b # s) (y # ys)"
    then obtain zs where "y # ys = a # b # s @ zs"
      by (auto simp: prefix_def)
    then show ?thesis by auto
  next
    assume "sublist (a # b # s) ys"
    then have "(a, b) \<in> set (zip ys (tl ys))" by (rule Cons.IH)
    then show ?thesis
      by (cases ys) auto
  qed
qed

lemma join_bullets_empty:
  "join sep (map (\<lambda>c. ''- '' @ c) items) = [] \<longleftrightarrow> items = []"
proof (cases items)
  case Nil
  then show ?thesis by simp
next
  case (Cons a rest)
  have "join sep ((''- '' @ a) # more) \<noteq> []" for more
    by (cases more) simp_all
  then show ?thesis
    unfolding Cons by simp
qed

section \<open>Properties of the prompt builders\<close>

text \<open>
  Claim C3. A locale that is not supported (its lowered form is none of
  \<open>SUPPORTED_LANGUAGES\<close>; the empty text is one such) gives exactly the prompt of the
  locale \<open>english\<close>, for every document kind and payload, also where building the prompt
  raises: both builders of legal documents and of company profiles.
\<close>

theorem unsupported_locale_is_english:
  assumes "lower l \<notin> set SUPPORTED_LANGUAGES"
  shows "legal_docs_build_prompt doc_type parties project_name l =
           legal_docs_build_prompt doc_type parties project_name ''english'' \<and>
         company_profiles_build_prompt firm project_relevance l =
           company_profiles_build_prompt firm project_relevance ''english''"
proof
  have "get_language_legal_templates l = get_language_legal_templates ''english''"
    using lower_unsupported [OF assms] by (simp add: get_language_legal_templates_cases)
  then show "legal_docs_build_prompt doc_type parties project_name l =
      legal_docs_build_prompt doc_type parties project_name ''english''"
    by (simp only: legal_docs_build_prompt_def)
  have "(if lower l \<in> set SUPPORTED_LANGUAGES then lower l else ''english'') =
      (if lower ''english'' \<in> set SUPPORTED_LANGUAGES then lower ''english'' else ''english'')"
    using assms by simp
  then show "company_profiles_build_prompt firm project_relevance l =
      company_profiles_build_prompt firm project_relevance ''english''"
    by (simp only: company_profiles_build_prompt_def)
qed

theorem unsupported_locale_is_english_witness:
  "legal_docs_build_prompt ''power_of_attorney'' power_of_attorney_parties
      ''Renewable Energy Project'' ''Klingon'' =
   legal_docs_build_prompt ''power_of_attorney'' power_of_attorney_parties
      ''Renewable Energy Project'' ''english'' \<and>
   company_profiles_build_prompt sample_firm relevance ''Klingon'' =
   company_profiles_build_prompt sample_firm relevance ''english'' \<and>
   legal_docs_build_prompt ''letter_of_association'' letter_of_association_parties
      ''Renewable Energy Project'' '''' =
   legal_docs_build_prompt ''letter_of_association'' letter_of_association_parties
      ''Renewable Energy Project'' ''english'' \<and>
   company_profiles_build_prompt sample_firm relevance '''' =
   company_profiles_build_prompt sample_firm relevance ''english''"
proof -
  have 1: "lower ''Klingon'' \<notin> set SUPPORTED_LANGUAGES"
    by (simp add: lower_def lower_char_def SUPPORTED_LANGUAGES_def)
  have 2: "lower '''' \<notin> set SUPPORTED_LANGUAGES"
    by (simp add: lower_def SUPPORTED_LANGUAGES_def)
  from unsupported_locale_is_english [OF 1] unsupported_locale_is_english [OF 2]
  show ?thesis by blast
qed

text \<open>
  Claim C4 says that the built prompt contains the instruction template of its kind and
  locale verbatim. Every template opens with a line break, the prompt puts one more
  before it, and the final \<open>strip()\<close> removes both: the prompt of the manual test for
  a power of attorney in English does not contain the English template of the table as
  a substring.
\<close>

theorem template_not_verbatim_counterexample:
  "(''english'', legal_english) \<in> set legal_docs_templates \<and>
   \<not> isl (legal_docs_build_prompt ''power_of_attorney'' power_of_attorney_parties
           ''Renewable Energy Project'' ''english'') \<and>
   \<not> sublist (power_of_attorney legal_english)
       (projr (legal_docs_build_prompt ''power_of_attorney'' power_of_attorney_parties
                 ''Renewable Energy Project'' ''english''))"
proof -
  let ?T = "power_of_attorney (get_language_legal_templates ''english'')"
  let ?p = "tl ?T @
          ''\<newline>\<newline>Project Name: '' @ ''Renewable Energy Project'' @ ''\<newline>\<newline>'' @
          ''Principal: '' @ ''John Doe'' @ '' ('' @ ''Principal'' @ '')\<newline>'' @
          ''Attorney-in-fact: '' @ ''Jane Smith'' @ '' ('' @ ''Attorney-in-fact'' @ '')\<newline>\<newline>'' @
          ''Generate the full legal Power of Attorney document below:''"
  have entry: "(''english'', legal_english) \<in> set legal_docs_templates"
    by (simp add: legal_docs_templates_def)
  have built: "legal_docs_build_prompt ''power_of_attorney'' power_of_attorney_parties
      ''Renewable Energy Project'' ''english'' = Inr ?p"
    unfolding power_of_attorney_parties_def
    by (rule legal_prompt_power_of_attorney) simp_all
  have E: "power_of_attorney legal_english = legal_english_power_of_attorney"
    by (simp add: legal_english_def)
  have T: "?T = legal_english_power_of_attorney"
    by (simp add: get_language_legal_templates_cases legal_english_def)
  have "(CHR ''\<newline>'', CHR ''Y'') \<notin> set (zip ?p (tl ?p))"
    unfolding T by (simp add: legal_english_power_of_attorney_def)
  moreover obtain s where "legal_english_power_of_attorney = CHR ''\<newline>'' # CHR ''Y'' # s"
    using legal_templates_open(1) ..
  ultimately have "\<not> sublist legal_english_power_of_attorney ?p"
    using sublist_pair [of "CHR ''\<newline>''" "CHR ''Y''" s ?p] by metis
  with built entry show ?thesis
    by (simp add: E)
qed

text \<open>
  Claim C4, as amended. For every supported locale \<open>L\<close>, that is every key of the table
  of templates, with \<open>T\<close> the entry of the table under \<open>L\<close>, every locale text whose
  lowered form is \<open>L\<close>, and each of the kinds power of attorney, letter of association
  and company profile: a prompt that is built begins with the instruction template of
  \<open>T\<close> for the kind without the template's first character, the line break that opens
  it; the rest of the template stands verbatim at the start of the prompt (a prefix,
  hence a substring).
\<close>

theorem prompt_begins_with_instructions:
  assumes "lower l = L"
  shows
    "(\<forall>T. (L, T) \<in> set legal_docs_templates \<longrightarrow>
        (legal_docs_build_prompt ''power_of_attorney'' parties project_name l = Inr p \<longrightarrow>
           prefix (tl (power_of_attorney T)) p) \<and>
        (legal_docs_build_prompt ''letter_of_association'' parties project_name l = Inr p \<longrightarrow>
           prefix (tl (letter_of_association T)) p) \<and>
        hd (power_of_attorney T) = CHR ''\<newline>'' \<and>
        hd (letter_of_association T) = CHR ''\<newline>'') \<and>
     (\<forall>P. (L, P) \<in> set company_profiles_templates \<longrightarrow>
        (company_profiles_build_prompt firm project_relevance l = Inr p \<longrightarrow>
           prefix (tl (instructions P)) p) \<and>
        hd (instructions P) = CHR ''\<newline>'')"
proof -
  have legal: "(legal_docs_build_prompt ''power_of_attorney'' parties project_name l = Inr p \<longrightarrow>
           prefix (tl (power_of_attorney T)) p) \<and>
        (legal_docs_build_prompt ''letter_of_association'' parties project_name l = Inr p \<longrightarrow>
           prefix (tl (letter_of_association T)) p) \<and>
        hd (power_of_attorney T) = CHR ''\<newline>'' \<and>
        hd (letter_of_association T) = CHR ''\<newline>''"
    if entry: "(L, T) \<in> set legal_docs_templates" for T
  proof -
    from entry assms have T: "get_language_legal_templates l = T"
      by (rule get_language_legal_templates_supported)
    obtain c1 s1 where 1: "power_of_attorney T = CHR ''\<newline>'' # c1 # s1"
      using power_of_attorney_open [of l] unfolding T by blast
    obtain c2 s2 where 2: "letter_of_association T = CHR ''\<newline>'' # c2 # s2"
      using letter_of_association_open [of l] unfolding T by blast
    show ?thesis
      using power_of_attorney_prompt_prefix [of parties project_name l p]
        letter_of_association_prompt_prefix [of parties project_name l p]
      unfolding T by (simp add: 1 2)
  qed
  have profile: "(company_profiles_build_prompt firm project_relevance l = Inr p \<longrightarrow>
           prefix (tl (instructions P)) p) \<and>
        hd (instructions P) = CHR ''\<newline>''"
    if entry: "(L, P) \<in> set company_profiles_templates" for P
  proof -
    from entry assms have P: "get_language_profile_templates l = P"
      by (rule get_language_profile_templates_supported)
    obtain c3 s3 where 3: "instructions P = CHR ''\<newline>'' # c3 # s3"
      using instructions_open [of l] unfolding P by blast
    show ?thesis
      using profile_prompt_prefix [of firm project_relevance l p]
      unfolding P by (simp add: 3)
  qed
  from legal profile show ?thesis
    by blast
qed

theorem prompt_begins_with_instructions_witness:
  "prefix (tl legal_portuguese_letter_of_association)
     (projr (legal_docs_build_prompt ''letter_of_association'' letter_of_association_parties
               ''Renewable Energy Project'' ''Portuguese'')) \<and>
   prefix (tl legal_english_power_of_attorney)
     (projr (legal_docs_build_prompt ''power_of_attorney'' power_of_attorney_parties
               ''Renewable Energy Project'' ''english'')) \<and>
   prefix (tl profile_spanish_instructions)
     (projr (company_profiles_build_prompt sample_firm relevance ''SPANISH'')) \<and>
   legal_portuguese_letter_of_association \<noteq> legal_english_letter_of_association \<and>
   profile_spanish_instructions \<noteq> profile_english_instructions"
proof -
  have pt: "lower ''Portuguese'' = ''portuguese''"
    and en: "lower ''english'' = ''english''"
    and es: "lower ''SPANISH'' = ''spanish''"
    by code_simp+
  have e1: "(''portuguese'', legal_portuguese) \<in> set legal_docs_templates"
    and e2: "(''english'', legal_english) \<in> set legal_docs_templates"
    by (simp_all add: legal_docs_templates_def)
  have e3: "(''spanish'', profile_spanish) \<in> set company_profiles_templates"
    by (simp add: company_profiles_templates_def)
  have "\<exists>p. legal_docs_build_prompt ''letter_of_association'' letter_of_association_parties
      ''Renewable Energy Project'' ''Portuguese'' = Inr p"
    by (subst legal_prompt_letter_of_association)
      (simp_all add: letter_of_association_parties_def getitem_def)
  then obtain p1 where p1: "legal_docs_build_prompt ''letter_of_association''
      letter_of_association_parties ''Renewable Energy Project'' ''Portuguese'' = Inr p1" ..
  have "\<exists>p. legal_docs_build_prompt ''power_of_attorney'' power_of_attorney_parties
      ''Renewable Energy Project'' ''english'' = Inr p"
    unfolding power_of_attorney_parties_def
    by (subst legal_prompt_power_of_attorney) simp_all
  then obtain p2 where p2: "legal_docs_build_prompt ''power_of_attorney''
      power_of_attorney_parties ''Renewable Energy Project'' ''english'' = Inr p2" ..
  have "\<exists>p. company_profiles_build_prompt sample_firm relevance ''SPANISH'' = Inr p"
    by (subst profile_prompt [of _ "''Alpha Consulting''"
          "''A multidisciplinary engineering firm specializing in urban infrastructure.''"])
      (simp_all add: sample_firm_def)
  then obtain p3 where p3: "company_profiles_build_prompt sample_firm relevance ''SPANISH'' =
      Inr p3" ..
  from prompt_begins_with_instructions [OF pt, of letter_of_association_parties
      "''Renewable Energy Project''" p1] e1 p1
  have 1: "prefix (tl (letter_of_association legal_portuguese)) p1"
    by blast
  from prompt_begins_with_instructions [OF en, of power_of_attorney_parties
      "''Renewable Energy Project''" p2] e2 p2
  have 2: "prefix (tl (power_of_attorney legal_english)) p2"
    by blast
  from prompt_begins_with_instructions [OF es, of _ _ p3 sample_firm relevance] e3 p3
  have 3: "prefix (tl (instructions profile_spanish)) p3"
    by blast
  obtain s1 s2 where pt_text: "legal_portuguese_letter_of_association = CHR ''\<newline>'' # CHR ''V'' # s1"
    and en_text: "legal_english_letter_of_association = CHR ''\<newline>'' # CHR ''Y'' # s2"
    using legal_templates_open(4) legal_templates_open(2) by blast
  have 4: "legal_portuguese_letter_of_association \<noteq> legal_english_letter_of_association"
  proof
    assume "legal_portuguese_letter_of_association = legal_english_letter_of_association"
    then have "CHR ''\<newline>'' # CHR ''V'' # s1 = CHR ''\<newline>'' # CHR ''Y'' # s2"
      by (simp only: pt_text en_text)
    then show False by simp
  qed
  obtain s3 s4 where es_text: "profile_spanish_instructions = CHR ''\<newline>'' # CHR ''E'' # s3"
    and en_profile: "profile_english_instructions = CHR ''\<newline>'' # CHR ''Y'' # s4"
    using profile_templates_open(3) profile_templates_open(1) by blast
  have 5: "profile_spanish_instructions \<noteq> profile_english_instructions"
  proof
    assume "profile_spanish_instructions = profile_english_instructions"
    then have "CHR ''\<newline>'' # CHR ''E'' # s3 = CHR ''\<newline>'' # CHR ''Y'' # s4"
      by (simp only: es_text en_profile)
    then show False by simp
  qed
  from 1 2 3 4 5 show ?thesis
    by (simp add: p1 p2 p3 legal_portuguese_def legal_english_def profile_spanish_def)
qed

text \<open>
  Claim C5. For three parties of which the first two have a name and a role, the prompt
  for a power of attorney is the text made of the template, the project name, the first
  party as \<open>Principal\<close> and the second as \<open>Attorney-in-fact\<close>: the same prompt as for the
  first two parties alone, whatever the third party is. The third party contributes
  nothing to it: a text that does not occur in the prompt of the first two parties (such
  as a name or role of the third that is distinct from the rest) does not occur in the
  prompt.
\<close>

theorem power_of_attorney_uses_first_two_parties:
  assumes "grantor ''name'' = Some n0" and "grantor ''role'' = Some r0"
    and "representative ''name'' = Some n1" and "representative ''role'' = Some r1"
  shows "\<exists>prompt.
     prompt =
       tl (power_of_attorney (get_language_legal_templates l)) @
       ''\<newline>\<newline>Project Name: '' @ project_name @ ''\<newline>\<newline>'' @
       ''Principal: '' @ n0 @ '' ('' @ r0 @ '')\<newline>'' @
       ''Attorney-in-fact: '' @ n1 @ '' ('' @ r1 @ '')\<newline>\<newline>'' @
       ''Generate the full legal Power of Attorney document below:'' \<and>
     legal_docs_build_prompt ''power_of_attorney'' [grantor, representative, third]
       project_name l = Inr prompt \<and>
     legal_docs_build_prompt ''power_of_attorney'' [grantor, representative]
       project_name l = Inr prompt \<and>
     sublist (''Principal: '' @ n0 @ '' ('' @ r0 @ '')'') prompt \<and>
     sublist (''Attorney-in-fact: '' @ n1 @ '' ('' @ r1 @ '')'') prompt \<and>
     (\<forall>v. \<not> sublist v (projr (legal_docs_build_prompt ''power_of_attorney''
                                  [grantor, representative] project_name l)) \<longrightarrow>
          \<not> sublist v prompt)"
proof -
  let ?T = "tl (power_of_attorney (get_language_legal_templates l))"
  let ?p = "?T @
       ''\<newline>\<newline>Project Name: '' @ project_name @ ''\<newline>\<newline>'' @
       ''Principal: '' @ n0 @ '' ('' @ r0 @ '')\<newline>'' @
       ''Attorney-in-fact: '' @ n1 @ '' ('' @ r1 @ '')\<newline>\<newline>'' @
       ''Generate the full legal Power of Attorney document below:''"
  have 3: "legal_docs_build_prompt ''power_of_attorney'' [grantor, representative, third]
       project_name l = Inr ?p"
    using assms by (rule legal_prompt_power_of_attorney)
  have 2: "legal_docs_build_prompt ''power_of_attorney'' [grantor, representative]
       project_name l = Inr ?p"
    using assms by (rule legal_prompt_power_of_attorney)
  have "?p = (?T @ ''\<newline>\<newline>Project Name: '' @ project_name @ ''\<newline>\<newline>'') @
      (''Principal: '' @ n0 @ '' ('' @ r0 @ '')'') @
      (''\<newline>'' @ ''Attorney-in-fact: '' @ n1 @ '' ('' @ r1 @ '')\<newline>\<newline>'' @
       ''Generate the full legal Power of Attorney document below:'')"
    by simp
  then have 4: "sublist (''Principal: '' @ n0 @ '' ('' @ r0 @ '')'') ?p"
    unfolding sublist_def by blast
  have "?p = (?T @ ''\<newline>\<newline>Project Name: '' @ project_name @ ''\<newline>\<newline>'' @
       ''Principal: '' @ n0 @ '' ('' @ r0 @ '')\<newline>'') @
      (''Attorney-in-fact: '' @ n1 @ '' ('' @ r1 @ '')'') @
      (''\<newline>\<newline>'' @ ''Generate the full legal Power of Attorney document below:'')"
    by simp
  then have 5: "sublist (''Attorney-in-fact: '' @ n1 @ '' ('' @ r1 @ '')'') ?p"
    unfolding sublist_def by blast
  have 6: "\<forall>v. \<not> sublist v (projr (legal_docs_build_prompt ''power_of_attorney''
      [grantor, representative] project_name l)) \<longrightarrow> \<not> sublist v ?p"
    by (simp only: 2 sum.sel) simp
  from 2 3 4 5 6 show ?thesis
    by blast
qed

theorem power_of_attorney_uses_first_two_parties_witness:
  "legal_docs_build_prompt ''power_of_attorney''
      (power_of_attorney_parties @ [map_of [(''name'', ''Gamma Solutions''), (''role'', ''Partner'')]])
      ''Renewable Energy Project'' ''english'' =
   legal_docs_build_prompt ''power_of_attorney'' power_of_attorney_parties
      ''Renewable Energy Project'' ''english'' \<and>
   sublist ''Principal: John Doe (Principal)''
     (projr (legal_docs_build_prompt ''power_of_attorney''
        (power_of_attorney_parties @
           [map_of [(''name'', ''Gamma Solutions''), (''role'', ''Partner'')]])
        ''Renewable Energy Project'' ''english'')) \<and>
   \<not> sublist ''Gamma Solutions''
     (projr (legal_docs_build_prompt ''power_of_attorney''
        (power_of_attorney_parties @
           [map_of [(''name'', ''Gamma Solutions''), (''role'', ''Partner'')]])
        ''Renewable Energy Project'' ''english'')) \<and>
   \<not> sublist ''Partner''
     (projr (legal_docs_build_prompt ''power_of_attorney''
        (power_of_attorney_parties @
           [map_of [(''name'', ''Gamma Solutions''), (''role'', ''Partner'')]])
        ''Renewable Energy Project'' ''english''))"
proof -
  let ?g = "map_of [(''name'', ''John Doe''), (''role'', ''Principal'')] :: dict"
  let ?r = "map_of [(''name'', ''Jane Smith''), (''role'', ''Attorney-in-fact'')] :: dict"
  let ?t = "map_of [(''name'', ''Gamma Solutions''), (''role'', ''Partner'')] :: dict"
  have "?g ''name'' = Some ''John Doe''" "?g ''role'' = Some ''Principal''"
    "?r ''name'' = Some ''Jane Smith''" "?r ''role'' = Some ''Attorney-in-fact''"
    by simp_all
  from power_of_attorney_uses_first_two_parties
    [OF this, of "''english''" "''Renewable Energy Project''" ?t]
  obtain prompt where
    p: "prompt =
       tl (power_of_attorney (get_language_legal_templates ''english'')) @
       ''\<newline>\<newline>Project Name: '' @ ''Renewable Energy Project'' @ ''\<newline>\<newline>'' @
       ''Principal: '' @ ''John Doe'' @ '' ('' @ ''Principal'' @ '')\<newline>'' @
       ''Attorney-in-fact: '' @ ''Jane Smith'' @ '' ('' @ ''Attorney-in-fact'' @ '')\<newline>\<newline>'' @
       ''Generate the full legal Power of Attorney document below:''"
    and 3: "legal_docs_build_prompt ''power_of_attorney'' [?g, ?r, ?t]
       ''Renewable Energy Project'' ''english'' = Inr prompt"
    and 2: "legal_docs_build_prompt ''power_of_attorney'' [?g, ?r]
       ''Renewable Energy Project'' ''english'' = Inr prompt"
    and 4: "sublist (''Principal: '' @ ''John Doe'' @ '' ('' @ ''Principal'' @ '')'') prompt"
    by blast
  have T: "power_of_attorney (get_language_legal_templates ''english'') =
      legal_english_power_of_attorney"
    by (simp add: get_language_legal_templates_cases legal_english_def)
  have "(CHR ''G'', CHR ''a'') \<notin> set (zip prompt (tl prompt))"
    "(CHR ''P'', CHR ''a'') \<notin> set (zip prompt (tl prompt))"
    unfolding p T by (simp_all add: legal_english_power_of_attorney_def)
  then have 5: "\<not> sublist ''Gamma Solutions'' prompt" "\<not> sublist ''Partner'' prompt"
    using sublist_pair [of "CHR ''G''" "CHR ''a''" "''mma Solutions''" prompt]
      sublist_pair [of "CHR ''P''" "CHR ''a''" "''rtner''" prompt]
    by auto
  from 2 3 4 5 show ?thesis
    by (simp add: power_of_attorney_parties_def)
qed

text \<open>
  Claim C9. In the prompt of a company profile (the firm having a name and a
  description), the line \<open>Certifications:\<close> is followed by the section of the
  certifications and the line \<open>Key Achievements:\<close> by that of the achievements; the
  section of an empty (or absent) list is the one line \<open>- None provided\<close>, that of any
  other list has one line \<open>- item\<close> per element in the order of the list, and no section
  is empty.
\<close>

theorem company_profile_list_sections:
  assumes "name firm = Some n" and "description firm = Some d"
  shows "\<exists>before after certs_section achievements_section.
     company_profiles_build_prompt firm project_relevance l =
       Inr (before @ ''Certifications:\<newline>'' @ certs_section @ ''\<newline>'' @
            ''Key Achievements:\<newline>'' @ achievements_section @ ''\<newline>'' @
            ''Relevance to Project: '' @ after) \<and>
     certs_section =
       (if firm_get (certifications firm) = [] then ''- None provided''
        else join ''\<newline>'' (map (\<lambda>c. ''- '' @ c) (firm_get (certifications firm)))) \<and>
     achievements_section =
       (if firm_get (achievements firm) = [] then ''- None provided''
        else join ''\<newline>'' (map (\<lambda>a. ''- '' @ a) (firm_get (achievements firm)))) \<and>
     certs_section \<noteq> [] \<and> achievements_section \<noteq> []"
proof -
  let ?T = "get_language_profile_templates l"
  let ?sec = "\<lambda>items. or_else (join ''\<newline>'' (map (\<lambda>c. ''- '' @ c) items)) ''- None provided''"
  have sec: "?sec items =
      (if items = [] then ''- None provided'' else join ''\<newline>'' (map (\<lambda>c. ''- '' @ c) items))"
    for items
  proof (cases "items = []")
    case True
    then show ?thesis by (simp add: or_else_def)
  next
    case False
    with join_bullets_empty [of "''\<newline>''" items]
    have "join ''\<newline>'' (map (\<lambda>c. ''- '' @ c) items) \<noteq> []" by blast
    with False show ?thesis
      unfolding or_else_def by (simp only: if_False)
  qed
  have nonempty: "?sec items \<noteq> []" for items
    by (simp add: or_else_def)
  let ?before = "tl (instructions ?T) @
      ''\<newline>\<newline>Generate a company profile using the data below.\<newline>\<newline>'' @
      ''Company Name: '' @ n @ ''\<newline>'' @ ''Description: '' @ d @ ''\<newline>''"
  let ?after = "project_relevance @ ''\<newline>\<newline>'' @ example ?T @ ''\<newline>\<newline>'' @
      ''Now produce the tailored company profile.''"
  have built: "company_profiles_build_prompt firm project_relevance l =
       Inr (?before @ ''Certifications:\<newline>'' @ ?sec (firm_get (certifications firm)) @
            ''\<newline>'' @ ''Key Achievements:\<newline>'' @ ?sec (firm_get (achievements firm)) @
            ''\<newline>'' @ ''Relevance to Project: '' @ ?after)"
    by (simp add: profile_prompt [OF assms])
  show ?thesis
    apply (rule exI [of _ ?before])
    apply (rule exI [of _ ?after])
    apply (rule exI [of _ "?sec (firm_get (certifications firm))"])
    apply (rule exI [of _ "?sec (firm_get (achievements firm))"])
    apply (intro conjI)
        apply (rule built)
       apply (rule sec)
      apply (rule sec)
     apply (rule nonempty)
    apply (rule nonempty)
    done
qed

theorem company_profile_list_sections_witness:
  "\<exists>before after.
     company_profiles_build_prompt (sample_firm\<lparr>certifications := Some []\<rparr>) relevance
       ''english'' =
       Inr (before @ ''Certifications:\<newline>'' @ ''- None provided'' @ ''\<newline>'' @
            ''Key Achievements:\<newline>'' @
            ''- Completed 50+ international projects\<newline>- Awarded Best Green Design 2023'' @
            ''\<newline>'' @ ''Relevance to Project: '' @ after)"
proof -
  let ?f = "sample_firm\<lparr>certifications := Some []\<rparr>"
  have "name ?f = Some ''Alpha Consulting''"
    and "description ?f =
      Some ''A multidisciplinary engineering firm specializing in urban infrastructure.''"
    by (simp_all add: sample_firm_def)
  from company_profile_list_sections [OF this, of relevance "''english''"]
  obtain before after sc sa where
    built: "company_profiles_build_prompt ?f relevance ''english'' =
       Inr (before @ ''Certifications:\<newline>'' @ sc @ ''\<newline>'' @
            ''Key Achievements:\<newline>'' @ sa @ ''\<newline>'' @
            ''Relevance to Project: '' @ after)"
    and sc: "sc =
       (if firm_get (certifications ?f) = [] then ''- None provided''
        else join ''\<newline>'' (map (\<lambda>c. ''- '' @ c) (firm_get (certifications ?f))))"
    and sa: "sa =
       (if firm_get (achievements ?f) = [] then ''- None provided''
        else join ''\<newline>'' (map (\<lambda>a. ''- '' @ a) (firm_get (achievements ?f))))"
    by blast
  have "sc = ''- None provided''"
    unfolding sc by (simp add: firm_get_def)
  moreover have "sa =
      ''- Completed 50+ international projects\<newline>- Awarded Best Green Design 2023''"
    unfolding sa by (simp add: firm_get_def sample_firm_def)
  ultimately show ?thesis
    using built by blast
qed

section \<open>Properties of the facades\<close>

text \<open>
  Claim C6. \<open>generate_legal_document\<close> on bad input: with fewer than two parties for
  \<open>power_of_attorney\<close> the call raises (\<open>IndexError\<close>, or \<open>KeyError\<close> when the only
  party lacks a key), and with a kind other than the two supported ones it raises
  \<open>ValueError\<close>. In both cases the exception leaves the function, no text is returned in
  its place, and no prompt has been sent to the provider.
\<close>

theorem bad_input_raises_before_any_call:
  "(doc_type = ''power_of_attorney'' \<and> length parties < 2 \<longrightarrow>
      (\<exists>e \<in> {IndexError, KeyError ''name'', KeyError ''role''}.
         generate_legal_document gemini doc_type parties project_name l = (Inl e, []))) \<and>
   (doc_type \<noteq> ''power_of_attorney'' \<and> doc_type \<noteq> ''letter_of_association'' \<longrightarrow>
      generate_legal_document gemini doc_type parties project_name l =
        (Inl (ValueError ''Unsupported document type''), []))"
proof (intro conjI impI)
  assume "doc_type = ''power_of_attorney'' \<and> length parties < 2"
  then have k: "doc_type = ''power_of_attorney''" and "length parties < 2" by simp_all
  from power_of_attorney_short [OF this(2)]
  obtain e where "e \<in> {IndexError, KeyError ''name'', KeyError ''role''}"
    and "legal_docs_build_prompt ''power_of_attorney'' parties project_name l = Inl e"
    by blast
  then show "\<exists>e \<in> {IndexError, KeyError ''name'', KeyError ''role''}.
      generate_legal_document gemini doc_type parties project_name l = (Inl e, [])"
    unfolding k by (intro bexI [of _ e]) (simp_all add: generate_legal_document_def)
next
  assume "doc_type \<noteq> ''power_of_attorney'' \<and> doc_type \<noteq> ''letter_of_association''"
  then show "generate_legal_document gemini doc_type parties project_name l =
      (Inl (ValueError ''Unsupported document type''), [])"
    by (simp add: generate_legal_document_def legal_docs_build_prompt_def)
qed

theorem bad_input_raises_before_any_call_witness:
  "generate_legal_document (replies ''text'') ''power_of_attorney''
      [map_of [(''name'', ''John Doe''), (''role'', ''Principal'')]]
      ''Renewable Energy Project'' ''english'' = (Inl IndexError, []) \<and>
   generate_legal_document (replies ''text'') ''nda'' power_of_attorney_parties
      ''Renewable Energy Project'' ''english'' =
     (Inl (ValueError ''Unsupported document type''), [])"
proof -
  let ?one = "[map_of [(''name'', ''John Doe''), (''role'', ''Principal'')]] :: dict list"
  let ?g = "generate_legal_document (replies ''text'') ''power_of_attorney'' ?one
      ''Renewable Energy Project'' ''english''"
  from bad_input_raises_before_any_call
    [of "''power_of_attorney''" ?one "replies ''text''" "''Renewable Energy Project''" "''english''"]
  have "\<exists>e \<in> {IndexError, KeyError ''name'', KeyError ''role''}. ?g = (Inl e, [])"
    by simp
  moreover have "?g \<noteq> (Inl (KeyError ''name''), [])" "?g \<noteq> (Inl (KeyError ''role''), [])"
    by (simp_all add: generate_legal_document_def legal_docs_build_prompt_def party_item_def
        list_getitem_def getitem_def)
  ultimately have "?g = (Inl IndexError, [])" by auto
  moreover from bad_input_raises_before_any_call
    [of "''nda''" power_of_attorney_parties "replies ''text''" "''Renewable Energy Project''"
      "''english''"]
  have "generate_legal_document (replies ''text'') ''nda'' power_of_attorney_parties
      ''Renewable Energy Project'' ''english'' =
     (Inl (ValueError ''Unsupported document type''), [])"
    by simp
  ultimately show ?thesis by simp
qed

text \<open>
  Claim C7. When the call of the provider raises, \<open>generate_legal_document\<close> and
  \<open>generate_company_profile\<close> return a text, \<open>Error generating ...:\<close> followed by the
  message of the exception, as their result; \<open>generate_project_list\<close> returns nothing and
  raises, a \<open>RuntimeError\<close> with the message for every exception other than a
  \<open>JSONDecodeError\<close>. In all three the prompt had been built and sent.
\<close>

theorem provider_failure_handling:
  "(legal_docs_build_prompt doc_type parties project_name l = Inr prompt \<and>
    gemini prompt = Raises e \<longrightarrow>
      generate_legal_document gemini doc_type parties project_name l =
        (Inr (''Error generating legal document: '' @ message e), [prompt])) \<and>
   (company_profiles_build_prompt firm project_relevance l = Inr prompt \<and>
    openai prompt = Raises e \<longrightarrow>
      generate_company_profile openai firm project_relevance l =
        (Inr (''Error generating company profile: '' @ message e), [prompt])) \<and>
   (project_lists_build_prompt current_project past_projects = Inr prompt \<and>
    openai prompt = Raises e \<longrightarrow>
      (\<exists>err. generate_project_list openai json_loads current_project past_projects =
         (Inl err, [prompt]) \<and>
         (\<forall>m. e = OtherException m \<longrightarrow> err = RuntimeError (''OpenAI API error: '' @ m))))"
  by (cases e)
    (simp_all add: generate_legal_document_def generate_company_profile_def
      generate_project_list_def)

theorem provider_failure_handling_witness:
  "fst (generate_legal_document (fails ''quota exceeded'') ''power_of_attorney''
         power_of_attorney_parties ''Renewable Energy Project'' ''english'') =
     Inr ''Error generating legal document: quota exceeded'' \<and>
   fst (generate_company_profile (fails ''quota exceeded'') sample_firm relevance ''english'') =
     Inr ''Error generating company profile: quota exceeded'' \<and>
   fst (generate_project_list (fails ''quota exceeded'')
         (loads_as reply_two_evaluations value_two_evaluations) current past) =
     Inl (RuntimeError ''OpenAI API error: quota exceeded'')"
proof -
  let ?e = "OtherException ''quota exceeded''"
  have "\<exists>p. legal_docs_build_prompt ''power_of_attorney'' power_of_attorney_parties
      ''Renewable Energy Project'' ''english'' = Inr p"
    unfolding power_of_attorney_parties_def
    by (subst legal_prompt_power_of_attorney) simp_all
  then obtain p1 where p1: "legal_docs_build_prompt ''power_of_attorney''
      power_of_attorney_parties ''Renewable Energy Project'' ''english'' = Inr p1" ..
  have "\<exists>p. company_profiles_build_prompt sample_firm relevance ''english'' = Inr p"
    by (subst profile_prompt [of _ "''Alpha Consulting''"
          "''A multidisciplinary engineering firm specializing in urban infrastructure.''"])
      (simp_all add: sample_firm_def)
  then obtain p2 where p2: "company_profiles_build_prompt sample_firm relevance ''english'' =
      Inr p2" ..
  from project_prompt_built [OF past_complete, of current]
  obtain p3 where p3: "project_lists_build_prompt current past = Inr p3" ..
  have f: "fails ''quota exceeded'' p = Raises ?e" for p
    by (simp add: fails_def)
  from provider_failure_handling [of "''power_of_attorney''" power_of_attorney_parties
      "''Renewable Energy Project''" "''english''" p1 "fails ''quota exceeded''" ?e]
    p1 f
  have 1: "fst (generate_legal_document (fails ''quota exceeded'') ''power_of_attorney''
         power_of_attorney_parties ''Renewable Energy Project'' ''english'') =
     Inr ''Error generating legal document: quota exceeded''"
    by simp
  from provider_failure_handling [of _ _ _ "''english''" p2 _ ?e sample_firm relevance
      "fails ''quota exceeded''"]
    p2 f
  have 2: "fst (generate_company_profile (fails ''quota exceeded'') sample_firm relevance
      ''english'') = Inr ''Error generating company profile: quota exceeded''"
    by simp
  from provider_failure_handling [of _ _ _ _ p3 _ ?e _ _ "fails ''quota exceeded''" current past
      "loads_as reply_two_evaluations value_two_evaluations"]
    p3 f
  have 3: "fst (generate_project_list (fails ''quota exceeded'')
         (loads_as reply_two_evaluations value_two_evaluations) current past) =
     Inl (RuntimeError ''OpenAI API error: quota exceeded'')"
    by auto
  from 1 2 3 show ?thesis by simp
qed

text \<open>
  Claim C1 says that the result of every successful call of \<open>generate_project_list\<close> has
  as many evaluations as past projects were given, scores between 0 and 100 and three
  additional recommendations. The code returns what \<open>json.loads\<close> gives and checks
  nothing: for the three past projects of the manual test and a reply that is a JSON
  document without any evaluation or recommendation, the call succeeds with that
  document.
\<close>

theorem unchecked_result_counterexample:
  "fst (generate_project_list (replies reply_empty) (loads_as reply_empty value_empty)
         current past) = Inr value_empty \<and>
   \<not> evaluation_result_ok (length past) value_empty"
proof -
  from project_prompt_built [OF past_complete, of current]
  obtain prompt where "project_lists_build_prompt current past = Inr prompt" ..
  moreover have "replies reply_empty prompt = Returns reply_empty"
    by (simp add: replies_def)
  moreover have "loads_as reply_empty value_empty (strip reply_empty) = Inr value_empty"
    by (simp add: loads_as_def strip_reply_empty)
  ultimately have "generate_project_list (replies reply_empty) (loads_as reply_empty value_empty)
      current past = (Inr value_empty, [prompt])"
    by (rule generate_project_list_returns)
  moreover have "\<not> evaluation_result_ok (length past) value_empty"
    by (simp add: evaluation_result_ok_def value_empty_def past_def)
  ultimately show ?thesis by simp
qed

text \<open>
  Claim C1, as amended. A call of \<open>generate_project_list\<close> succeeds with the value \<open>v\<close>
  exactly when the prompt could be built, the provider returned a text and \<open>json.loads\<close>
  of the stripped text is \<open>v\<close>: the result is the parsed reply, unchanged and unchecked,
  so it has the shape of an evaluation result when the reply has it.
\<close>

theorem project_list_returns_parsed_reply:
  "fst (generate_project_list openai json_loads current_project past_projects) = Inr v \<longleftrightarrow>
   (\<exists>prompt text.
      project_lists_build_prompt current_project past_projects = Inr prompt \<and>
      openai prompt = Returns text \<and> json_loads (strip text) = Inr v)"
  by (auto simp: generate_project_list_def Let_def
      split: sum.splits reply.splits raised.splits)

theorem project_list_returns_parsed_reply_witness:
  "fst (generate_project_list (replies reply_two_evaluations)
         (loads_as reply_two_evaluations value_two_evaluations) current (take 2 past)) =
     Inr value_two_evaluations \<and>
   evaluation_result_ok (length (take 2 past)) value_two_evaluations"
proof -
  have "\<forall>p \<in> set (take 2 past). p ''title'' \<noteq> None \<and> p ''description'' \<noteq> None"
    by (simp add: past_def)
  from project_prompt_built [OF this, of current]
  obtain prompt where "project_lists_build_prompt current (take 2 past) = Inr prompt" ..
  moreover have "replies reply_two_evaluations prompt = Returns reply_two_evaluations"
    by (simp add: replies_def)
  moreover have "loads_as reply_two_evaluations value_two_evaluations
      (strip reply_two_evaluations) = Inr value_two_evaluations"
    by (simp add: loads_as_def strip_reply_two_evaluations)
  ultimately have "fst (generate_project_list (replies reply_two_evaluations)
         (loads_as reply_two_evaluations value_two_evaluations) current (take 2 past)) =
     Inr value_two_evaluations"
    unfolding project_list_returns_parsed_reply by blast
  moreover have "evaluation_result_ok (length (take 2 past)) value_two_evaluations"
    by (simp add: evaluation_result_ok_def score_in_range_def value_two_evaluations_def past_def)
  ultimately show ?thesis ..
qed




section \<open>Properties of contacts.py\<close>

text \<open>
  Claim C8 says that for every list of contacts the formatted contacts are returned in
  sorted order, a contact without the sort field counting as the empty text. Sorting does
  so, but formatting needs all four keys: for the two contacts \<open>{name: Bob}\<close> and
  \<open>{name: Ann}\<close> sorted by name, the call raises \<open>KeyError\<close> and returns nothing.
\<close>

theorem partial_contacts_counterexample:
  "generate_contact_list [map_of [(''name'', ''Bob'')], map_of [(''name'', ''Ann'')]] ''name'' =
     Inl (KeyError ''role'')"
  by (simp add: generate_contact_list_def format_contact_def getitem_def dict_get_def
      less_eq_char_def less_char_def)

text \<open>
  Claim C8, as amended. For every list of contacts that each have the four keys, and
  every sort field, \<open>generate_contact_list\<close> returns the formatted contacts in the order
  of a stable sort on that field: the output formats, one by one, a list that is a
  permutation of the input, is sorted by the field read with \<open>get(order_by, "")\<close> (a
  contact without the field counts as the empty text), and keeps the input order among
  contacts of equal key.
\<close>

theorem generate_contact_list_stable_sort:
  assumes "\<forall>c \<in> set contacts. \<forall>k \<in> set contact_keys. c k \<noteq> None"
  shows "\<exists>out sorted_contacts.
           generate_contact_list contacts order_by = Inr out \<and>
           map format_contact sorted_contacts = map Inr out \<and>
           mset sorted_contacts = mset contacts \<and>
           sorted (map (\<lambda>c. dict_get c order_by '''') sorted_contacts) \<and>
           (\<forall>v. filter (\<lambda>c. dict_get c order_by '''' = v) sorted_contacts =
                filter (\<lambda>c. dict_get c order_by '''' = v) contacts)"
proof -
  define key where "key = (\<lambda>c :: dict. dict_get c order_by '''')"
  define s where "s = sort_key key contacts"
  have "\<exists>y. format_contact c = Inr y" if "c \<in> set s" for c
    using that assms by (simp add: s_def format_contact_returns)
  then obtain out where out: "comprehension format_contact s = Inr out"
    using comprehension_returns [of s format_contact] by auto
  have 1: "generate_contact_list contacts order_by = Inr out"
    using out by (simp add: generate_contact_list_def s_def key_def)
  have 2: "map format_contact s = map Inr out"
    using out by (simp add: comprehension_eq_Inr)
  have 3: "mset s = mset contacts"
    by (simp add: s_def)
  have 4: "sorted (map key s)"
    by (simp add: s_def)
  have 5: "\<forall>v. filter (\<lambda>c. key c = v) s = filter (\<lambda>c. key c = v) contacts"
    unfolding s_def by (rule allI) (rule sort_key_stable)
  from 1 2 3 4 5 show ?thesis
    unfolding key_def by blast
qed

theorem generate_contact_list_stable_sort_witness:
  "(\<exists>out sorted_contacts.
      generate_contact_list [bob(''company'' \<mapsto> ''Acme''), ann] ''company'' = Inr out \<and>
      map format_contact sorted_contacts = map Inr out \<and>
      mset sorted_contacts = mset [bob(''company'' \<mapsto> ''Acme''), ann] \<and>
      sorted (map (\<lambda>c. dict_get c ''company'' '''') sorted_contacts) \<and>
      (\<forall>v. filter (\<lambda>c. dict_get c ''company'' '''' = v) sorted_contacts =
           filter (\<lambda>c. dict_get c ''company'' '''' = v) [bob(''company'' \<mapsto> ''Acme''), ann])) \<and>
   generate_contact_list [bob(''company'' \<mapsto> ''Acme''), ann] ''company'' =
     Inr [''Name: Ann\<newline>Role: Manager\<newline>Email: ann@example.com\<newline>Phone: 555-0102'',
          ''Name: Bob\<newline>Role: Engineer\<newline>Email: bob@example.com\<newline>Phone: 555-0101''] \<and>
   generate_contact_list [bob, ann] ''name'' =
     Inr [''Name: Ann\<newline>Role: Manager\<newline>Email: ann@example.com\<newline>Phone: 555-0102'',
          ''Name: Bob\<newline>Role: Engineer\<newline>Email: bob@example.com\<newline>Phone: 555-0101'']"
proof -
  have keys: "\<forall>c \<in> set [bob(''company'' \<mapsto> ''Acme''), ann]. \<forall>k \<in> set contact_keys. c k \<noteq> None"
    by (simp add: bob_def ann_def contact_keys_def)
  have 1: "generate_contact_list [bob(''company'' \<mapsto> ''Acme''), ann] ''company'' =
     Inr [''Name: Ann\<newline>Role: Manager\<newline>Email: ann@example.com\<newline>Phone: 555-0102'',
          ''Name: Bob\<newline>Role: Engineer\<newline>Email: bob@example.com\<newline>Phone: 555-0101'']"
    by (simp add: generate_contact_list_def format_contact_def getitem_def dict_get_def
        bob_def ann_def)
  have 2: "generate_contact_list [bob, ann] ''name'' =
     Inr [''Name: Ann\<newline>Role: Manager\<newline>Email: ann@example.com\<newline>Phone: 555-0102'',
          ''Name: Bob\<newline>Role: Engineer\<newline>Email: bob@example.com\<newline>Phone: 555-0101'']"
    by (simp add: generate_contact_list_def format_contact_def getitem_def dict_get_def
        bob_def ann_def less_eq_char_def less_char_def)
  from generate_contact_list_stable_sort [OF keys, of "''company''"] 1 2 show ?thesis
    by blast
qed

text \<open>
  Claim C10. Sorting tolerates a contact without the sort field, but formatting reads
  all of \<open>name\<close>, \<open>role\<close>, \<open>email\<close> and \<open>phone\<close>: when some contact of the input lacks
  one of them, the whole call raises \<open>KeyError\<close> for one of these keys and returns no
  list.
\<close>

theorem contact_missing_key_raises:
  assumes "c \<in> set contacts" and "k \<in> set contact_keys" and "c k = None"
  shows "\<exists>k' \<in> set contact_keys. generate_contact_list contacts order_by = Inl (KeyError k')"
proof -
  define s where "s = sort_key (\<lambda>c :: dict. dict_get c order_by '''') contacts"
  have "\<not> (\<exists>t. format_contact c = Inr t)"
    using assms(2,3) by (simp only: format_contact_returns) blast
  then obtain e where e: "format_contact c = Inl e"
    by (cases "format_contact c") auto
  have "c \<in> set s"
    using assms(1) by (simp add: s_def)
  with e obtain e' where e': "comprehension format_contact s = Inl e'"
    using comprehension_raises [of c s format_contact e] by auto
  from comprehension_eq_Inl [of format_contact s e', OF e']
  obtain x where "format_contact x = Inl e'" by auto
  from format_contact_raises [OF this]
  obtain k' where "k' \<in> set contact_keys" and "e' = KeyError k'" by auto
  with e' show ?thesis
    by (auto simp: generate_contact_list_def s_def)
qed

theorem contact_missing_key_raises_witness:
  "(\<exists>k' \<in> set contact_keys. generate_contact_list [bob, cy, ann] ''role'' = Inl (KeyError k')) \<and>
   generate_contact_list [bob, cy, ann] ''role'' = Inl (KeyError ''role'')"
proof -
  have "cy \<in> set [bob, cy, ann]" and "''role'' \<in> set contact_keys" and "cy ''role'' = None"
    by (simp_all add: cy_def contact_keys_def)
  from contact_missing_key_raises [OF this, of "''role''"]
  have 1: "\<exists>k' \<in> set contact_keys. generate_contact_list [bob, cy, ann] ''role'' = Inl (KeyError k')" .
  have 2: "generate_contact_list [bob, cy, ann] ''role'' = Inl (KeyError ''role'')"
    by (simp add: generate_contact_list_def format_contact_def getitem_def dict_get_def
        bob_def ann_def cy_def less_eq_char_def less_char_def)
  from 1 2 show ?thesis ..
qed

end
